theory Spec2Isabelle
  imports Complex_Main "HOL-Library.Sublist"
begin

section \<open>Strings\<close>

text \<open>
  A JavaScript string is a sequence of UTF-16 code units. Strings that the program reads
  (utterances, locations, condition texts, queries) are modelled as \<^typ>\<open>string\<close>, a
  \<^typ>\<open>char\<close> standing for the code unit of the same number, so the inputs covered are
  the strings of code units below 256. Texts that the program only builds and that hold
  pictographs are lists of code units, \<open>utf16\<close>.
\<close>

type_synonym utf16 = "nat list"

definition units :: "string \<Rightarrow> utf16" where
  "units s = map of_char s"

text \<open>
  \<open>String.prototype.toLowerCase\<close> on code units below 256: the letters A to Z and the
  Latin-1 capitals U+00C0 to U+00DE, the multiplication sign U+00D7 apart, move up by 32.
\<close>

definition toLowerCase_char :: "char \<Rightarrow> char" where
  "toLowerCase_char c =
     (let n = (of_char c :: nat)
      in if (65 \<le> n \<and> n \<le> 90) \<or> (192 \<le> n \<and> n \<le> 214) \<or> (216 \<le> n \<and> n \<le> 222)
         then char_of (n + 32) else c)"

definition toLowerCase :: "string \<Rightarrow> string" where
  "toLowerCase s = map toLowerCase_char s"

text \<open>\<open>String.prototype.includes\<close>: the needle occurs as a contiguous run.\<close>

fun str_includes :: "string \<Rightarrow> string \<Rightarrow> bool" where
  "str_includes [] n = (n = [])"
| "str_includes (c # cs) n = (prefix n (c # cs) \<or> str_includes cs n)"

text \<open>
  \<open>toUpperCase\<close> of one code unit below 256, as code units: the sharp s becomes two
  letters, and y with diaeresis and the micro sign leave the range.
\<close>

definition toUpperCase_unit :: "nat \<Rightarrow> utf16" where
  "toUpperCase_unit n =
     (if (97 \<le> n \<and> n \<le> 122) \<or> (224 \<le> n \<and> n \<le> 246) \<or> (248 \<le> n \<and> n \<le> 254)
      then [n - 32]
      else if n = 223 then [83, 83]
      else if n = 255 then [376]
      else if n = 181 then [924]
      else [n])"

text \<open>A JavaScript string is truthy when it is present and not empty.\<close>

fun truthy :: "string option \<Rightarrow> bool" where
  "truthy None = False"
| "truthy (Some s) = (s \<noteq> [])"

section \<open>Regular expressions\<close>

text \<open>
  The patterns of the program use literal characters, the dot, \<open>\s\<close>, the class
  \<open>[a-z\s]\<close>, sequence, alternation, greedy and lazy repetition, capture groups, the end
  anchor and the word boundary. Matching follows the backtracking matcher of the language
  definition: a matcher takes the position, the captures so far and a continuation, and
  alternatives are tried in order.
\<close>

datatype atom = Lit char | Dot | Space | Letter_or_space

datatype regex =
  Atom atom
| Empty
| Seq regex regex
| Alt regex regex
| Star bool regex
| Group nat regex
| Eol
| Word_boundary

text \<open>\<open>r+\<close> and \<open>r+?\<close>: one \<open>r\<close>, then the greedy or the lazy star.\<close>

definition plus :: "bool \<Rightarrow> regex \<Rightarrow> regex" where
  "plus greedy r = Seq r (Star greedy r)"

fun seq :: "regex list \<Rightarrow> regex" where
  "seq [] = Empty"
| "seq [r] = r"
| "seq (r # rs) = Seq r (seq rs)"

definition str :: "string \<Rightarrow> regex" where
  "str s = seq (map (\<lambda>c. Atom (Lit c)) s)"

text \<open>White space of \<open>\s\<close> and of \<open>trim\<close>, and the line terminators, below 256.\<close>

definition is_space :: "char \<Rightarrow> bool" where
  "is_space c =
     (c \<in> set [CHR 0x09, CHR 0x0A, CHR 0x0B, CHR 0x0C, CHR 0x0D, CHR 0x20, CHR 0xA0])"

definition is_line_terminator :: "char \<Rightarrow> bool" where
  "is_line_terminator c = (c \<in> set [CHR 0x0A, CHR 0x0D])"

definition is_word_char :: "char \<Rightarrow> bool" where
  "is_word_char c =
     (let n = (of_char c :: nat)
      in (97 \<le> n \<and> n \<le> 122) \<or> (65 \<le> n \<and> n \<le> 90) \<or> (48 \<le> n \<and> n \<le> 57) \<or> n = 95)"

text \<open>
  Canonicalize of the \<open>i\<close> flag: the upper case of the code unit, unless that is more
  than one unit or would turn a unit from 128 on into one below 128.
\<close>

definition canonicalize :: "char \<Rightarrow> nat" where
  "canonicalize c =
     (case toUpperCase_unit (of_char c) of
        [cu] \<Rightarrow> if (of_char c :: nat) \<ge> 128 \<and> cu < 128 then of_char c else cu
      | _ \<Rightarrow> of_char c)"

fun atom_matches :: "bool \<Rightarrow> atom \<Rightarrow> char \<Rightarrow> bool" where
  "atom_matches ignoreCase (Lit p) c = (if ignoreCase then canonicalize c = canonicalize p else c = p)"
| "atom_matches ignoreCase Dot c = (\<not> is_line_terminator c)"
| "atom_matches ignoreCase Space c = is_space c"
| "atom_matches ignoreCase Letter_or_space c =
     (if ignoreCase then (65 \<le> canonicalize c \<and> canonicalize c \<le> 90) \<or> is_space c
      else (97 \<le> (of_char c :: nat) \<and> (of_char c :: nat) \<le> 122) \<or> is_space c)"

type_synonym captures = "(nat \<times> nat \<times> nat) list"

text \<open>
  A position in the input: its index, the character before it and the input from it on.
\<close>

type_synonym position = "nat \<times> char option \<times> string"

type_synonym 'r continuation = "position \<Rightarrow> captures \<Rightarrow> 'r option"

type_synonym 'r matcher = "position \<Rightarrow> captures \<Rightarrow> 'r continuation \<Rightarrow> 'r option"

text \<open>
  Repetition. A round that consumes nothing is refused, so there are at most as many
  rounds as characters left; the recursion is on them.
\<close>

fun repeat :: "bool \<Rightarrow> 'r matcher \<Rightarrow> string \<Rightarrow> 'r matcher" where
  "repeat greedy body [] x caps k = k x caps"
| "repeat greedy body (c # left) x caps k =
     (if greedy then
        (case body x caps
                (\<lambda>y caps'. if fst y = fst x then None else repeat greedy body left y caps' k) of
           Some res \<Rightarrow> Some res
         | None \<Rightarrow> k x caps)
      else
        (case k x caps of
           Some res \<Rightarrow> Some res
         | None \<Rightarrow>
             body x caps
               (\<lambda>y caps'. if fst y = fst x then None else repeat greedy body left y caps' k)))"

fun is_word :: "char option \<Rightarrow> bool" where
  "is_word None = False"
| "is_word (Some c) = is_word_char c"

fun next_char :: "string \<Rightarrow> char option" where
  "next_char [] = None"
| "next_char (c # cs) = Some c"

primrec matcher :: "bool \<Rightarrow> regex \<Rightarrow> 'r matcher" where
  "matcher ic (Atom a) = (\<lambda>(i, before, rest) caps k.
     case rest of
       c # cs \<Rightarrow> if atom_matches ic a c then k (Suc i, Some c, cs) caps else None
     | [] \<Rightarrow> None)"
| "matcher ic Empty = (\<lambda>x caps k. k x caps)"
| "matcher ic (Seq r1 r2) = (\<lambda>x caps k.
     matcher ic r1 x caps (\<lambda>y caps'. matcher ic r2 y caps' k))"
| "matcher ic (Alt r1 r2) = (\<lambda>x caps k.
     case matcher ic r1 x caps k of
       Some res \<Rightarrow> Some res
     | None \<Rightarrow> matcher ic r2 x caps k)"
| "matcher ic (Star greedy r) = (\<lambda>x caps k.
     repeat greedy (matcher ic r) (snd (snd x)) x caps k)"
| "matcher ic (Group n r) = (\<lambda>x caps k.
     matcher ic r x caps (\<lambda>y caps'. k y ((n, fst x, fst y) # caps')))"
| "matcher ic Eol = (\<lambda>(i, before, rest) caps k. if rest = [] then k (i, before, rest) caps else None)"
| "matcher ic Word_boundary = (\<lambda>(i, before, rest) caps k.
     if is_word before \<noteq> is_word (next_char rest) then k (i, before, rest) caps else None)"

text \<open>
  A match, as \<open>exec\<close> finds it: the first position from the left where the pattern
  matches, with the end of the match and the captures.
\<close>

fun exec_from :: "bool \<Rightarrow> regex \<Rightarrow> nat \<Rightarrow> char option \<Rightarrow> string \<Rightarrow> (nat \<times> nat \<times> captures) option" where
  "exec_from ic r i before [] =
     matcher ic r (i, before, []) [] (\<lambda>y caps. Some (i, fst y, caps))"
| "exec_from ic r i before (c # cs) =
     (case matcher ic r (i, before, c # cs) [] (\<lambda>y caps. Some (i, fst y, caps)) of
        Some res \<Rightarrow> Some res
      | None \<Rightarrow> exec_from ic r (Suc i) (Some c) cs)"

definition regex_exec :: "bool \<Rightarrow> regex \<Rightarrow> string \<Rightarrow> (nat \<times> nat \<times> captures) option" where
  "regex_exec ic r s = exec_from ic r 0 None s"

definition group_text :: "string \<Rightarrow> captures \<Rightarrow> nat \<Rightarrow> string option" where
  "group_text s caps n =
     (case map_of caps n of
        Some (i, j) \<Rightarrow> Some (take (j - i) (drop i s))
      | None \<Rightarrow> None)"

text \<open>
  \<open>replace\<close> with a global pattern and the empty replacement: every match, found from
  left to right, is left out. The scan keeps the character before the position, which
  the word boundary reads. A match is empty when it leaves the rest as long as it was;
  after it, as where nothing matches, the scan moves on by one character.
\<close>

function remove_from :: "bool \<Rightarrow> regex \<Rightarrow> char option \<Rightarrow> string \<Rightarrow> string" where
  "remove_from ic r before [] = []"
| "remove_from ic r before (c # cs) =
     (case matcher ic r (0, before, c # cs) [] (\<lambda>y caps. Some (snd y)) of
        Some (before', rest') \<Rightarrow>
          if length rest' < length (c # cs) then remove_from ic r before' rest'
          else c # remove_from ic r (Some c) cs
      | None \<Rightarrow> c # remove_from ic r (Some c) cs)"
  by pat_completeness auto
termination
  by (relation "measure (\<lambda>(ic, r, before, rest). length rest)") auto

definition remove_all :: "bool \<Rightarrow> regex \<Rightarrow> string \<Rightarrow> string" where
  "remove_all ic r s = remove_from ic r None s"

text \<open>\<open>trim\<close>: white space is taken off both ends.\<close>

definition trim :: "string \<Rightarrow> string" where
  "trim s = rev (dropWhile is_space (rev (dropWhile is_space s)))"

section \<open>Intent extraction (getWeatherResponse)\<close>

text \<open>
  The part of \<open>getWeatherResponse\<close> before the network calls: from the utterance to
  the one city, or the two cities, whose weather is asked for.
\<close>

datatype intent = Compare string string | SingleCity string

text \<open>The separator \<open>\s+\<close>.\<close>

definition spaces :: regex where
  "spaces = plus True (Atom Space)"

text \<open>
  The three comparison patterns, all with the \<open>i\<close> flag:
  \<open>/compare\s+(.+?)\s+(?:and|vs|versus)\s+(.+)/\<close>, \<open>/(.+?)\s+vs\s+(.+)/\<close> and
  \<open>/(.+?)\s+versus\s+(.+)/\<close>.
\<close>

definition comparisonPatterns :: "regex list" where
  "comparisonPatterns =
     [seq [str ''compare'', spaces, Group 1 (plus False (Atom Dot)), spaces,
           Alt (str ''and'') (Alt (str ''vs'') (str ''versus'')), spaces,
           Group 2 (plus True (Atom Dot))],
      seq [Group 1 (plus False (Atom Dot)), spaces, str ''vs'', spaces,
           Group 2 (plus True (Atom Dot))],
      seq [Group 1 (plus False (Atom Dot)), spaces, str ''versus'', spaces,
           Group 2 (plus True (Atom Dot))]]"

text \<open>
  The loop over the comparison patterns: the captures of the first pattern that matches
  with both groups truthy.
\<close>

fun comparison_match :: "regex list \<Rightarrow> string \<Rightarrow> (string \<times> string) option" where
  "comparison_match [] userMessage = None"
| "comparison_match (pattern # patterns) userMessage =
     (case regex_exec True pattern userMessage of
        Some (i, j, caps) \<Rightarrow>
          (case (group_text userMessage caps 1, group_text userMessage caps 2) of
             (Some g1, Some g2) \<Rightarrow>
               if g1 \<noteq> [] \<and> g2 \<noteq> [] then Some (g1, g2)
               else comparison_match patterns userMessage
           | _ \<Rightarrow> comparison_match patterns userMessage)
      | None \<Rightarrow> comparison_match patterns userMessage)"

text \<open>The two chains of \<open>replace\<close> calls that clean the captured city names.\<close>

definition city1_of :: "string \<Rightarrow> string" where
  "city1_of g =
     trim (remove_all False (str ''?'')
       (remove_all True (str ''the'')
         (remove_all True (str ''weather'')
           (remove_all True (str ''weather for'')
             (remove_all True (str ''weather in'')
               (remove_all True (str ''compare'') (trim g)))))))"

definition city2_of :: "string \<Rightarrow> string" where
  "city2_of g =
     trim (remove_all False (str ''?'')
       (remove_all True (str ''the'')
         (remove_all True (str ''weather'')
           (remove_all True (str ''weather for'')
             (remove_all True (str ''weather in'') (trim g))))))"

text \<open>
  The preposition pattern, with the \<open>i\<close> flag:
  \<open>/(?:in|for|at)\s+([a-z\s]+?)(?:\s+today|\s+tomorrow|\s+tonight|\s+right now|\s+currently|\s*\?|$)/\<close>.
\<close>

definition prepositionPattern :: regex where
  "prepositionPattern =
     seq [Alt (str ''in'') (Alt (str ''for'') (str ''at'')), spaces,
          Group 1 (plus False (Atom Letter_or_space)),
          Alt (Seq spaces (str ''today''))
            (Alt (Seq spaces (str ''tomorrow''))
              (Alt (Seq spaces (str ''tonight''))
                (Alt (Seq spaces (str ''right now''))
                  (Alt (Seq spaces (str ''currently''))
                    (Alt (Seq (Star True (Atom Space)) (str ''?'')) Eol)))))]"

text \<open>The location after the loop over the preposition patterns; empty when none was found.\<close>

definition preposition_location :: "string \<Rightarrow> string" where
  "preposition_location userMessage =
     (case regex_exec True prepositionPattern userMessage of
        Some (i, j, caps) \<Rightarrow>
          (case group_text userMessage caps 1 of
             Some g \<Rightarrow> if g \<noteq> [] then trim g else []
           | None \<Rightarrow> [])
      | None \<Rightarrow> [])"

text \<open>
  The utterance in lower case without the filler phrases, removed one after the other
  in the order of the source, and trimmed.
\<close>

definition cleanedMessage :: "string \<Rightarrow> string" where
  "cleanedMessage userMessage =
     trim (remove_all False (str ''?'')
       (foldl (\<lambda>text phrase. remove_all True (str phrase) text) (toLowerCase userMessage)
          [''what'' @ [CHR 0x27] @ ''s'', ''what is'', ''the'', ''weather'', ''forecast'', ''wear'',
           ''should i'', ''today'', ''tomorrow'', ''tonight'', ''this week'', ''next week'',
           ''this month'', ''right now'', ''currently'']))"

text \<open>\<open>/\bword\b/\<close>, and the final cleanup that removes the time words so delimited.\<close>

definition whole_word :: "string \<Rightarrow> regex" where
  "whole_word w = seq [Word_boundary, str w, Word_boundary]"

definition final_cleanup :: "string \<Rightarrow> string" where
  "final_cleanup location =
     trim (foldl (\<lambda>text phrase. remove_all True (whole_word phrase) text) location
       [''today'', ''tomorrow'', ''tonight'', ''right now'', ''currently'', ''this week'',
        ''next week'', ''this month'', ''forecast''])"

text \<open>
  The location of a single-city request, in the order of the source: the preposition
  pattern, else the cleaned message, else the default city, and then the final cleanup.
\<close>

definition single_city :: "string \<Rightarrow> string" where
  "single_city userMessage =
     (let location = preposition_location userMessage;
          location = (if location = [] then cleanedMessage userMessage else location);
          location = (if location = [] then ''New York'' else location)
      in final_cleanup location)"

definition getWeatherResponse_intent :: "string \<Rightarrow> intent" where
  "getWeatherResponse_intent userMessage =
     (case comparison_match comparisonPatterns userMessage of
        Some (g1, g2) \<Rightarrow> Compare (city1_of g1) (city2_of g2)
      | None \<Rightarrow> SingleCity (single_city userMessage))"

text \<open>
  The cleaning of a captured city in the words of the specification: the listed
  substrings are removed one after the other, without regard to case, then the question
  marks, and the result is trimmed. The program trims the capture first.
\<close>

definition strip_listed :: "string list \<Rightarrow> string \<Rightarrow> string" where
  "strip_listed phrases city =
     trim (remove_all False (str ''?'')
       (foldl (\<lambda>text phrase. remove_all True (str phrase) text) (trim city) phrases))"

subsection \<open>Notions for the proofs about patterns\<close>

text \<open>A pattern without capture groups.\<close>

primrec group_free :: "regex \<Rightarrow> bool" where
  "group_free (Atom a) = True"
| "group_free Empty = True"
| "group_free (Seq r1 r2) = (group_free r1 \<and> group_free r2)"
| "group_free (Alt r1 r2) = (group_free r1 \<and> group_free r2)"
| "group_free (Star greedy r) = group_free r"
| "group_free (Group n r) = False"
| "group_free Eol = True"
| "group_free Word_boundary = True"

text \<open>A position that belongs to the input \<open>s\<close>: the rest is what follows the index.\<close>

definition wf_pos :: "string \<Rightarrow> position \<Rightarrow> bool" where
  "wf_pos s x = (fst x \<le> length s \<and> snd (snd x) = drop (fst x) s)"

text \<open>The shape of the three comparison patterns: two groups, each one or more of an atom.\<close>

definition two_groups :: "regex \<Rightarrow> bool" where
  "two_groups p =
     (\<exists>pre mid g1 a1 g2 a2. list_all group_free pre \<and> list_all group_free mid \<and>
        p = seq (pre @ Group 1 (plus g1 (Atom a1)) # mid @ [Group 2 (plus g2 (Atom a2))]))"

section \<open>Outfit rule table (generateOutfitRecommendation)\<close>

record outfit_item =
  item_name :: string
  item_query :: string

record outfit_variation =
  style :: string
  items :: "outfit_item list"

text \<open>
  The upstream weather document as the rule table and the endpoint read it:
  \<open>name\<close>, \<open>sys.country\<close>, \<open>main.temp\<close>, \<open>main.feels_like\<close>, \<open>main.humidity\<close>,
  \<open>weather[0].main\<close>, \<open>weather[0].description\<close>, \<open>wind.speed\<close>. Numbers are finite
  doubles, modelled as reals.
\<close>

record weather_data =
  wd_name :: utf16
  wd_country :: string
  wd_temp :: real
  wd_feels_like :: real
  wd_humidity :: real
  wd_main :: string
  wd_description :: string
  wd_wind_speed :: real

text \<open>
  The recommendation returned: the note and the variations. The \<open>summary\<close> field, a
  formatted sentence built from the rounded temperatures and the description, is not
  modelled.
\<close>

record outfit =
  note_text :: utf16
  variations :: "outfit_variation list"

definition extreme_cold_variations :: "outfit_variation list" where
  "extreme_cold_variations = [
    \<lparr>style = ''Winter Essential'',
      items = [
        \<lparr>item_name = ''Heavy Puffer Coat'', item_query = ''black puffer jacket down coat''\<rparr>,
        \<lparr>item_name = ''Thermal Base Layer'', item_query = ''merino wool thermal shirt''\<rparr>,
        \<lparr>item_name = ''Insulated Boots'', item_query = ''snow boots waterproof''\<rparr>,
        \<lparr>item_name = ''Wool Scarf & Gloves'', item_query = ''wool scarf knit gloves set''\<rparr>]\<rparr>,
    \<lparr>style = ''Urban Winter'',
      items = [
        \<lparr>item_name = ''Winter Jacket'', item_query = ''navy blue winter parka''\<rparr>,
        \<lparr>item_name = ''Warm Sweater'', item_query = ''cable knit sweater beige''\<rparr>,
        \<lparr>item_name = ''Snow Boots'', item_query = ''leather winter boots brown''\<rparr>,
        \<lparr>item_name = ''Beanie & Mittens'', item_query = ''beanie hat winter mittens''\<rparr>]\<rparr>,
    \<lparr>style = ''Classic Cold Weather'',
      items = [
        \<lparr>item_name = ''Long Winter Coat'', item_query = ''long wool coat gray''\<rparr>,
        \<lparr>item_name = ''Layered Clothing'', item_query = ''turtleneck sweater black''\<rparr>,
        \<lparr>item_name = ''Leather Boots'', item_query = ''leather ankle boots black''\<rparr>,
        \<lparr>item_name = ''Knit Scarf Set'', item_query = ''cashmere scarf winter''\<rparr>]\<rparr>]"

definition extreme_cold_note :: utf16 where
  "extreme_cold_note = units ''Freezing temperatures require heavy insulation and layering.''"

definition cold_variations :: "outfit_variation list" where
  "cold_variations = [
    \<lparr>style = ''Casual Cool'',
      items = [
        \<lparr>item_name = ''Denim Jacket'', item_query = ''blue denim jacket classic''\<rparr>,
        \<lparr>item_name = ''Knit Sweater'', item_query = ''cream knit sweater cozy''\<rparr>,
        \<lparr>item_name = ''Ankle Boots'', item_query = ''suede ankle boots tan''\<rparr>,
        \<lparr>item_name = ''Warm Scarf'', item_query = ''plaid scarf wool''\<rparr>]\<rparr>,
    \<lparr>style = ''Modern Edge'',
      items = [
        \<lparr>item_name = ''Bomber Jacket'', item_query = ''black bomber jacket leather''\<rparr>,
        \<lparr>item_name = ''Turtleneck'', item_query = ''gray turtleneck sweater''\<rparr>,
        \<lparr>item_name = ''Chelsea Boots'', item_query = ''black chelsea boots leather''\<rparr>,
        \<lparr>item_name = ''Light Scarf'', item_query = ''minimalist scarf black''\<rparr>]\<rparr>,
    \<lparr>style = ''Timeless Chic'',
      items = [
        \<lparr>item_name = ''Wool Coat'', item_query = ''tan beige wool overcoat jacket''\<rparr>,
        \<lparr>item_name = ''Pullover Sweater'', item_query = ''burgundy knit pullover sweater crewneck''\<rparr>,
        \<lparr>item_name = ''Leather Boots'', item_query = ''brown leather boots vintage''\<rparr>,
        \<lparr>item_name = ''Knit Scarf'', item_query = ''chunky knit scarf beige''\<rparr>]\<rparr>]"

definition cold_note :: utf16 where
  "cold_note = units ''Cold weather calls for warm layers and comfortable outerwear.''"

definition mild_cool_variations :: "outfit_variation list" where
  "mild_cool_variations = [
    \<lparr>style = ''Smart Casual'',
      items = [
        \<lparr>item_name = ''Light Jacket'', item_query = ''khaki field jacket spring''\<rparr>,
        \<lparr>item_name = ''Long Sleeve Shirt'', item_query = ''white oxford shirt cotton''\<rparr>,
        \<lparr>item_name = ''Sneakers'', item_query = ''white leather sneakers clean''\<rparr>]\<rparr>,
    \<lparr>style = ''Relaxed Comfort'',
      items = [
        \<lparr>item_name = ''Cardigan'', item_query = ''navy cardigan sweater knitwear menswear''\<rparr>,
        \<lparr>item_name = ''Polo Shirt'', item_query = ''striped polo shirt casual''\<rparr>,
        \<lparr>item_name = ''Casual Loafers'', item_query = ''brown suede loafers''\<rparr>]\<rparr>,
    \<lparr>style = ''Active Ready'',
      items = [
        \<lparr>item_name = ''Windbreaker'', item_query = ''windbreaker jacket sports apparel clothing''\<rparr>,
        \<lparr>item_name = ''Henley Shirt'', item_query = ''gray henley shirt long sleeve''\<rparr>,
        \<lparr>item_name = ''Running Shoes'', item_query = ''running shoes athletic colorful''\<rparr>]\<rparr>]"

definition mild_cool_note :: utf16 where
  "mild_cool_note = units ''Cool and pleasant - light layers work best.''"

definition comfortable_variations :: "outfit_variation list" where
  "comfortable_variations = [
    \<lparr>style = ''Everyday Casual'',
      items = [
        \<lparr>item_name = ''Cotton T-Shirt'', item_query = ''white cotton tshirt mens fashion''\<rparr>,
        \<lparr>item_name = ''Light Cardigan'', item_query = ''cardigan sweater mens fashion knitwear''\<rparr>,
        \<lparr>item_name = ''Sneakers'', item_query = ''white canvas sneakers footwear''\<rparr>]\<rparr>,
    \<lparr>style = ''Business Casual'',
      items = [
        \<lparr>item_name = ''Polo Shirt'', item_query = ''navy polo shirt menswear''\<rparr>,
        \<lparr>item_name = ''Chinos'', item_query = ''beige chino pants menswear''\<rparr>,
        \<lparr>item_name = ''Oxford Shoes'', item_query = ''brown leather oxford shoes footwear''\<rparr>]\<rparr>,
    \<lparr>style = ''Streetwear Vibe'',
      items = [
        \<lparr>item_name = ''Graphic Tee'', item_query = ''black tshirt streetwear fashion''\<rparr>,
        \<lparr>item_name = ''Hoodie'', item_query = ''grey hoodie streetwear''\<rparr>,
        \<lparr>item_name = ''White Sneakers'', item_query = ''white sneakers street fashion''\<rparr>]\<rparr>]"

definition comfortable_note :: utf16 where
  "comfortable_note = units ''Comfortable temperature - perfect for light, casual wear.''"

definition warm_variations :: "outfit_variation list" where
  "warm_variations = [
    \<lparr>style = ''Summer Breeze'',
      items = [
        \<lparr>item_name = ''Light Cotton Tee'', item_query = ''blue cotton tshirt mens summer fashion''\<rparr>,
        \<lparr>item_name = ''Shorts'', item_query = ''navy shorts mens casual wear''\<rparr>,
        \<lparr>item_name = ''Slide Sandals'', item_query = ''leather sandals mens footwear''\<rparr>,
        \<lparr>item_name = ''Sunglasses'', item_query = ''aviator sunglasses accessory''\<rparr>]\<rparr>,
    \<lparr>style = ''Beach Ready'',
      items = [
        \<lparr>item_name = ''Tank Top'', item_query = ''white tank top mens athletic wear''\<rparr>,
        \<lparr>item_name = ''Denim Shorts'', item_query = ''denim shorts mens casual''\<rparr>,
        \<lparr>item_name = ''Flip Flops'', item_query = ''flip flops mens beach footwear''\<rparr>,
        \<lparr>item_name = ''Aviator Sunglasses'', item_query = ''sunglasses mens accessory''\<rparr>]\<rparr>,
    \<lparr>style = ''Resort Casual'',
      items = [
        \<lparr>item_name = ''Linen Shirt'', item_query = ''beige linen shirt mens summer wear''\<rparr>,
        \<lparr>item_name = ''Light Pants'', item_query = ''linen pants mens white''\<rparr>,
        \<lparr>item_name = ''Canvas Sneakers'', item_query = ''canvas sneakers white footwear''\<rparr>,
        \<lparr>item_name = ''Shades'', item_query = ''sunglasses mens fashion accessory''\<rparr>]\<rparr>]"

definition warm_note :: utf16 where
  "warm_note = units ''Warm weather - light, breathable clothing recommended.''"

definition hot_variations :: "outfit_variation list" where
  "hot_variations = [
    \<lparr>style = ''Heat Wave'',
      items = [
        \<lparr>item_name = ''Breathable Tank'', item_query = ''mesh tank top athletic black''\<rparr>,
        \<lparr>item_name = ''Athletic Shorts'', item_query = ''performance shorts athletic gray''\<rparr>,
        \<lparr>item_name = ''Sport Sandals'', item_query = ''sport sandals outdoor black''\<rparr>,
        \<lparr>item_name = ''Wide Brim Hat'', item_query = ''straw sun hat wide brim''\<rparr>]\<rparr>,
    \<lparr>style = ''Tropical Vibes'',
      items = [
        \<lparr>item_name = ''Light Tank Top'', item_query = ''colorful tank top tropical print''\<rparr>,
        \<lparr>item_name = ''Swim Shorts'', item_query = ''swim trunks tropical pattern''\<rparr>,
        \<lparr>item_name = ''Beach Sandals'', item_query = ''flip flops beach colorful''\<rparr>,
        \<lparr>item_name = ''Baseball Cap'', item_query = ''baseball cap summer white''\<rparr>]\<rparr>,
    \<lparr>style = ''Desert Cool'',
      items = [
        \<lparr>item_name = ''Moisture-Wicking Top'', item_query = ''technical tshirt outdoor beige''\<rparr>,
        \<lparr>item_name = ''Light Clothing'', item_query = ''cargo shorts outdoor khaki''\<rparr>,
        \<lparr>item_name = ''Open Sandals'', item_query = ''hiking sandals outdoor brown''\<rparr>,
        \<lparr>item_name = ''Bucket Hat'', item_query = ''bucket hat outdoor navy''\<rparr>]\<rparr>]"

definition hot_note :: utf16 where
  "hot_note = units ''Very hot - stay cool with minimal, moisture-wicking fabrics.''"


text \<open>The chain of temperature tests, in the order of the source.\<close>

definition temperature_outfit :: "real \<Rightarrow> outfit" where
  "temperature_outfit temp =
     (if temp < 0 then \<lparr>note_text = extreme_cold_note, variations = extreme_cold_variations\<rparr>
      else if temp < 10 then \<lparr>note_text = cold_note, variations = cold_variations\<rparr>
      else if temp < 18 then \<lparr>note_text = mild_cool_note, variations = mild_cool_variations\<rparr>
      else if temp < 25 then \<lparr>note_text = comfortable_note, variations = comfortable_variations\<rparr>
      else if temp < 30 then \<lparr>note_text = warm_note, variations = warm_variations\<rparr>
      else \<lparr>note_text = hot_note, variations = hot_variations\<rparr>)"

definition umbrella_item :: outfit_item where
  "umbrella_item = \<lparr>item_name = ''Umbrella'', item_query = ''umbrella rain''\<rparr>"

definition snow_gear_item :: outfit_item where
  "snow_gear_item = \<lparr>item_name = ''Snow Gear'', item_query = ''snow gear''\<rparr>"

text \<open>The four note suffixes; each pictograph is written as its UTF-16 code units.\<close>

definition rain_note :: utf16 where
  "rain_note = [0x2614] @ units '' Rain expected! ''"

definition snow_note :: utf16 where
  "snow_note = [0x2744, 0xFE0F] @ units '' Snowy weather! ''"

definition wind_note :: utf16 where
  "wind_note = [0xD83D, 0xDCA8] @ units '' Windy conditions! ''"

definition humidity_note :: utf16 where
  "humidity_note = [0xD83C, 0xDF21, 0xFE0F] @ units '' High humidity - choose breathable fabrics! ''"

definition add_item :: "outfit_item \<Rightarrow> outfit_variation \<Rightarrow> outfit_variation" where
  "add_item it variation = variation\<lparr>items := items variation @ [it]\<rparr>"

text \<open>The four adjustments after the temperature chain, each on the result of the one before.\<close>

definition rain_adjustment :: "string \<Rightarrow> outfit \<Rightarrow> outfit" where
  "rain_adjustment condition out =
     (if str_includes condition ''rain'' \<or> str_includes condition ''drizzle''
      then \<lparr>note_text = note_text out @ rain_note, variations = map (add_item umbrella_item) (variations out)\<rparr>
      else out)"

definition snow_adjustment :: "string \<Rightarrow> outfit \<Rightarrow> outfit" where
  "snow_adjustment condition out =
     (if str_includes condition ''snow''
      then \<lparr>note_text = note_text out @ snow_note, variations = map (add_item snow_gear_item) (variations out)\<rparr>
      else out)"

definition wind_adjustment :: "real \<Rightarrow> outfit \<Rightarrow> outfit" where
  "wind_adjustment windSpeed out =
     (if windSpeed > 8 then out\<lparr>note_text := note_text out @ wind_note\<rparr> else out)"

definition humidity_adjustment :: "real \<Rightarrow> real \<Rightarrow> outfit \<Rightarrow> outfit" where
  "humidity_adjustment humidity temp out =
     (if humidity > 80 \<and> temp > 20 then out\<lparr>note_text := note_text out @ humidity_note\<rparr> else out)"

definition generateOutfitRecommendation :: "weather_data \<Rightarrow> outfit" where
  "generateOutfitRecommendation weatherData =
     (let temp = wd_temp weatherData;
          condition = toLowerCase (wd_main weatherData);
          windSpeed = wd_wind_speed weatherData;
          humidity = wd_humidity weatherData
      in humidity_adjustment humidity temp
           (wind_adjustment windSpeed
             (snow_adjustment condition
               (rain_adjustment condition (temperature_outfit temp)))))"

section \<open>Demo weather (generateMockWeather)\<close>

record profile =
  p_temp :: real
  p_feels :: real
  p_humidity :: real
  p_wind :: real
  p_condition :: string
  p_desc :: string
  p_country :: string

text \<open>The table of city profiles, in the order the source lists its keys.\<close>

definition cityProfiles :: "(string \<times> profile) list" where
  "cityProfiles = [
    (''london'', \<lparr>p_temp = 14, p_feels = 12, p_humidity = 72, p_wind = 4.2,
       p_condition = ''Clouds'', p_desc = ''broken clouds'', p_country = ''GB''\<rparr>),
    (''paris'', \<lparr>p_temp = 16, p_feels = 15, p_humidity = 68, p_wind = 3.8,
       p_condition = ''Clear'', p_desc = ''clear sky'', p_country = ''FR''\<rparr>),
    (''berlin'', \<lparr>p_temp = 13, p_feels = 11, p_humidity = 70, p_wind = 4.5,
       p_condition = ''Clouds'', p_desc = ''overcast clouds'', p_country = ''DE''\<rparr>),
    (''amsterdam'', \<lparr>p_temp = 12, p_feels = 10, p_humidity = 78, p_wind = 5.2,
       p_condition = ''Rain'', p_desc = ''light rain'', p_country = ''NL''\<rparr>),
    (''rome'', \<lparr>p_temp = 21, p_feels = 20, p_humidity = 62, p_wind = 2.8,
       p_condition = ''Clear'', p_desc = ''clear sky'', p_country = ''IT''\<rparr>),
    (''madrid'', \<lparr>p_temp = 19, p_feels = 18, p_humidity = 55, p_wind = 3.2,
       p_condition = ''Clear'', p_desc = ''few clouds'', p_country = ''ES''\<rparr>),
    (''barcelona'', \<lparr>p_temp = 20, p_feels = 19, p_humidity = 65, p_wind = 3.5,
       p_condition = ''Clear'', p_desc = ''clear sky'', p_country = ''ES''\<rparr>),
    (''moscow'', \<lparr>p_temp = - 2, p_feels = - 6, p_humidity = 85, p_wind = 5.5,
       p_condition = ''Snow'', p_desc = ''light snow'', p_country = ''RU''\<rparr>),
    (''oslo'', \<lparr>p_temp = 3, p_feels = - 1, p_humidity = 75, p_wind = 6.0,
       p_condition = ''Clouds'', p_desc = ''overcast clouds'', p_country = ''NO''\<rparr>),
    (''stockholm'', \<lparr>p_temp = 5, p_feels = 2, p_humidity = 72, p_wind = 4.8,
       p_condition = ''Clouds'', p_desc = ''scattered clouds'', p_country = ''SE''\<rparr>),
    (''helsinki'', \<lparr>p_temp = 1, p_feels = - 3, p_humidity = 80, p_wind = 5.2,
       p_condition = ''Snow'', p_desc = ''light snow'', p_country = ''FI''\<rparr>),
    (''reykjavik'', \<lparr>p_temp = 4, p_feels = 0, p_humidity = 82, p_wind = 7.5,
       p_condition = ''Rain'', p_desc = ''light rain'', p_country = ''IS''\<rparr>),
    (''tokyo'', \<lparr>p_temp = 22, p_feels = 23, p_humidity = 68, p_wind = 3.5,
       p_condition = ''Clear'', p_desc = ''clear sky'', p_country = ''JP''\<rparr>),
    (''beijing'', \<lparr>p_temp = 18, p_feels = 17, p_humidity = 45, p_wind = 4.2,
       p_condition = ''Clear'', p_desc = ''few clouds'', p_country = ''CN''\<rparr>),
    (''shanghai'', \<lparr>p_temp = 24, p_feels = 25, p_humidity = 75, p_wind = 3.8,
       p_condition = ''Clouds'', p_desc = ''scattered clouds'', p_country = ''CN''\<rparr>),
    (''singapore'', \<lparr>p_temp = 31, p_feels = 36, p_humidity = 85, p_wind = 2.5,
       p_condition = ''Rain'', p_desc = ''light rain'', p_country = ''SG''\<rparr>),
    (''bangkok'', \<lparr>p_temp = 33, p_feels = 38, p_humidity = 80, p_wind = 2.2,
       p_condition = ''Clear'', p_desc = ''clear sky'', p_country = ''TH''\<rparr>),
    (''mumbai'', \<lparr>p_temp = 32, p_feels = 37, p_humidity = 82, p_wind = 3.8,
       p_condition = ''Clouds'', p_desc = ''scattered clouds'', p_country = ''IN''\<rparr>),
    (''delhi'', \<lparr>p_temp = 28, p_feels = 30, p_humidity = 60, p_wind = 4.0,
       p_condition = ''Clear'', p_desc = ''haze'', p_country = ''IN''\<rparr>),
    (''seoul'', \<lparr>p_temp = 17, p_feels = 16, p_humidity = 65, p_wind = 3.5,
       p_condition = ''Clear'', p_desc = ''clear sky'', p_country = ''KR''\<rparr>),
    (''hong kong'', \<lparr>p_temp = 27, p_feels = 29, p_humidity = 78, p_wind = 3.2,
       p_condition = ''Clouds'', p_desc = ''few clouds'', p_country = ''HK''\<rparr>),
    (''dubai'', \<lparr>p_temp = 38, p_feels = 42, p_humidity = 55, p_wind = 4.5,
       p_condition = ''Clear'', p_desc = ''clear sky'', p_country = ''AE''\<rparr>),
    (''riyadh'', \<lparr>p_temp = 35, p_feels = 37, p_humidity = 25, p_wind = 5.0,
       p_condition = ''Clear'', p_desc = ''clear sky'', p_country = ''SA''\<rparr>),
    (''cairo'', \<lparr>p_temp = 30, p_feels = 32, p_humidity = 40, p_wind = 4.2,
       p_condition = ''Clear'', p_desc = ''clear sky'', p_country = ''EG''\<rparr>),
    (''new york'', \<lparr>p_temp = 18, p_feels = 17, p_humidity = 65, p_wind = 4.8,
       p_condition = ''Clouds'', p_desc = ''scattered clouds'', p_country = ''US''\<rparr>),
    (''los angeles'', \<lparr>p_temp = 24, p_feels = 23, p_humidity = 58, p_wind = 3.2,
       p_condition = ''Clear'', p_desc = ''clear sky'', p_country = ''US''\<rparr>),
    (''chicago'', \<lparr>p_temp = 15, p_feels = 13, p_humidity = 70, p_wind = 5.5,
       p_condition = ''Clouds'', p_desc = ''broken clouds'', p_country = ''US''\<rparr>),
    (''miami'', \<lparr>p_temp = 30, p_feels = 34, p_humidity = 78, p_wind = 4.0,
       p_condition = ''Clear'', p_desc = ''few clouds'', p_country = ''US''\<rparr>),
    (''san francisco'', \<lparr>p_temp = 17, p_feels = 16, p_humidity = 75, p_wind = 5.2,
       p_condition = ''Clouds'', p_desc = ''fog'', p_country = ''US''\<rparr>),
    (''seattle'', \<lparr>p_temp = 14, p_feels = 13, p_humidity = 80, p_wind = 3.8,
       p_condition = ''Rain'', p_desc = ''light rain'', p_country = ''US''\<rparr>),
    (''toronto'', \<lparr>p_temp = 16, p_feels = 14, p_humidity = 68, p_wind = 4.5,
       p_condition = ''Clouds'', p_desc = ''overcast clouds'', p_country = ''CA''\<rparr>),
    (''vancouver'', \<lparr>p_temp = 15, p_feels = 14, p_humidity = 78, p_wind = 3.5,
       p_condition = ''Rain'', p_desc = ''moderate rain'', p_country = ''CA''\<rparr>),
    (''calgary'', \<lparr>p_temp = 8, p_feels = 4, p_humidity = 55, p_wind = 5.8,
       p_condition = ''Clouds'', p_desc = ''scattered clouds'', p_country = ''CA''\<rparr>),
    (''mexico city'', \<lparr>p_temp = 22, p_feels = 21, p_humidity = 55, p_wind = 2.8,
       p_condition = ''Clear'', p_desc = ''clear sky'', p_country = ''MX''\<rparr>),
    (''buenos aires'', \<lparr>p_temp = 20, p_feels = 19, p_humidity = 72, p_wind = 4.2,
       p_condition = ''Clear'', p_desc = ''clear sky'', p_country = ''AR''\<rparr>),
    (''rio de janeiro'', \<lparr>p_temp = 28, p_feels = 30, p_humidity = 75, p_wind = 3.5,
       p_condition = ''Clear'', p_desc = ''few clouds'', p_country = ''BR''\<rparr>),
    (''sao paulo'', \<lparr>p_temp = 23, p_feels = 22, p_humidity = 68, p_wind = 3.0,
       p_condition = ''Clouds'', p_desc = ''scattered clouds'', p_country = ''BR''\<rparr>),
    (''lima'', \<lparr>p_temp = 21, p_feels = 20, p_humidity = 78, p_wind = 3.8,
       p_condition = ''Clouds'', p_desc = ''overcast clouds'', p_country = ''PE''\<rparr>),
    (''sydney'', \<lparr>p_temp = 22, p_feels = 21, p_humidity = 65, p_wind = 4.5,
       p_condition = ''Clear'', p_desc = ''clear sky'', p_country = ''AU''\<rparr>),
    (''melbourne'', \<lparr>p_temp = 18, p_feels = 17, p_humidity = 68, p_wind = 5.0,
       p_condition = ''Clouds'', p_desc = ''scattered clouds'', p_country = ''AU''\<rparr>),
    (''auckland'', \<lparr>p_temp = 17, p_feels = 16, p_humidity = 75, p_wind = 4.8,
       p_condition = ''Clouds'', p_desc = ''broken clouds'', p_country = ''NZ''\<rparr>),
    (''cape town'', \<lparr>p_temp = 19, p_feels = 18, p_humidity = 70, p_wind = 5.5,
       p_condition = ''Clear'', p_desc = ''clear sky'', p_country = ''ZA''\<rparr>),
    (''nairobi'', \<lparr>p_temp = 24, p_feels = 23, p_humidity = 62, p_wind = 3.5,
       p_condition = ''Clear'', p_desc = ''few clouds'', p_country = ''KE''\<rparr>)]"

text \<open>The search loop: the first key that the lowercased location contains.\<close>

fun find_profile :: "string \<Rightarrow> (string \<times> profile) list \<Rightarrow> profile option" where
  "find_profile locationLower [] = None"
| "find_profile locationLower ((city, data) # rest) =
     (if str_includes locationLower city then Some data else find_profile locationLower rest)"

text \<open>Without a table entry the profile is seeded by the sum of the code units.\<close>

definition location_seed :: "string \<Rightarrow> nat" where
  "location_seed location = foldl (\<lambda>acc ch. acc + of_char ch) 0 location"

definition seeded_profile :: "string \<Rightarrow> profile" where
  "seeded_profile location =
     (let seed = location_seed location;
          tempBase = 15 + real (seed mod 20);
          variation = real (seed mod 10) - 5
      in \<lparr>p_temp = tempBase + variation,
          p_feels = tempBase + variation + (real (seed mod 6) - 3),
          p_humidity = 50 + real (seed mod 40),
          p_wind = 2 + real (seed mod 5),
          p_condition = [''Clear'', ''Clouds'', ''Rain''] ! (seed mod 3),
          p_desc = [''clear sky'', ''scattered clouds'', ''light rain''] ! (seed mod 3),
          p_country = ''XX''\<rparr>)"

text \<open>
  The four values of \<open>Math.random()\<close>, in the order of the calls: for the temperature,
  the humidity, the wind and the felt temperature.
\<close>

record jitter =
  rnd_temp :: real
  rnd_humidity :: real
  rnd_wind :: real
  rnd_feels :: real

definition capitalize :: "string \<Rightarrow> utf16" where
  "capitalize location =
     concat (map (toUpperCase_unit \<circ> of_char) (take 1 location)) @ units (drop 1 location)"

definition generateMockWeather :: "string \<Rightarrow> jitter \<Rightarrow> weather_data" where
  "generateMockWeather location rnd =
     (let locationLower = toLowerCase location;
          profile = (case find_profile locationLower cityProfiles of
                       Some data \<Rightarrow> data
                     | None \<Rightarrow> seeded_profile location);
          tempVariation = rnd_temp rnd * 6 - 3;
          humidityVariation = rnd_humidity rnd * 30 - 15;
          windVariation = rnd_wind rnd * 4 - 2;
          feelsLikeVariation = rnd_feels rnd * 8 - 4
      in \<lparr>wd_name = capitalize location,
          wd_country = p_country profile,
          wd_temp = p_temp profile + tempVariation,
          wd_feels_like = p_feels profile + feelsLikeVariation,
          wd_humidity = max 30 (min 100 (p_humidity profile + humidityVariation)),
          wd_main = p_condition profile,
          wd_description = p_desc profile,
          wd_wind_speed = max 0.5 (p_wind profile + windVariation)\<rparr>)"

section \<open>Weather endpoint\<close>

text \<open>
  What the call to the weather provider comes to: the fetch throws, or a response arrives
  with its status and body. A body is a weather document (it has the members the
  handler and the rule table read, and no \<open>message\<close>), another JSON value with or
  without a \<open>message\<close>, or something on which reading throws (not JSON, or
  \<open>null\<close>).
\<close>

datatype upstream_body =
  Weather_doc weather_data
| Message_doc "string option"
| Unreadable

datatype upstream =
  Fetch_throws
| Upstream_response nat upstream_body

definition response_ok :: "nat \<Rightarrow> bool" where
  "response_ok status = (200 \<le> status \<and> status \<le> 299)"

record weather_snapshot =
  ws_location :: utf16
  ws_country :: string
  ws_temperature :: int
  ws_feelsLike :: int
  ws_condition :: string
  ws_description :: string
  ws_humidity :: real
  ws_windSpeed :: real

text \<open>
  What the handler reads of the request: the body cannot be read (\<open>c.req.json()\<close> or
  the destructuring throws), or it is read and its \<open>location\<close> is absent, a string,
  or another JSON value, of which only the truthiness matters before it is used.
\<close>

datatype location_value =
  No_location
| Location_text string
| Location_other bool

datatype request =
  Unreadable_request
| Parsed_request location_value

fun truthy_location :: "location_value \<Rightarrow> bool" where
  "truthy_location No_location = False"
| "truthy_location (Location_text s) = (s \<noteq> [])"
| "truthy_location (Location_other t) = t"

text \<open>
  The answers of the handler: the weather with the outfit, the demo flag and the reason;
  an error text with its status; and the answer of the outer \<open>catch\<close>, status 500
  with the message of what was thrown.
\<close>

datatype endpoint_response =
  Weather_response weather_snapshot outfit bool "string option"
| Error_response string nat
| Caught_response

text \<open>\<open>Math.round\<close>: the nearest integer, a half going up.\<close>

definition math_round :: "real \<Rightarrow> int" where
  "math_round x = \<lfloor>x + 1 / 2\<rfloor>"

definition snapshot_of :: "weather_data \<Rightarrow> weather_snapshot" where
  "snapshot_of weatherData =
     \<lparr>ws_location = wd_name weatherData,
      ws_country = wd_country weatherData,
      ws_temperature = math_round (wd_temp weatherData),
      ws_feelsLike = math_round (wd_feels_like weatherData),
      ws_condition = wd_main weatherData,
      ws_description = wd_description weatherData,
      ws_humidity = wd_humidity weatherData,
      ws_windSpeed = wd_wind_speed weatherData\<rparr>"

text \<open>
  The inner \<open>try\<close> block: \<open>Some\<close> is the response it returns, \<open>None\<close> the fall through
  to demo mode (status 401, or anything thrown inside the block). On a status that is
  neither ok nor 401, every body that can be read gives the error answer.
\<close>

text \<open>\<open>errorData.message\<close> of a body that was read.\<close>

fun error_message :: "upstream_body \<Rightarrow> string option" where
  "error_message (Message_doc message) = message"
| "error_message _ = None"

fun live_weather :: "upstream \<Rightarrow> endpoint_response option" where
  "live_weather Fetch_throws = None"
| "live_weather (Upstream_response status body) =
     (if response_ok status then
        (case body of
           Weather_doc weatherData \<Rightarrow>
             Some (Weather_response (snapshot_of weatherData)
                     (generateOutfitRecommendation weatherData) False None)
         | _ \<Rightarrow> None)
      else if status = 401 then None
      else
        (case body of
           Unreadable \<Rightarrow> None
         | _ \<Rightarrow>
             Some (Error_response
                     (case error_message body of
                        Some text \<Rightarrow> if text \<noteq> [] then text else ''Failed to fetch weather data''
                      | None \<Rightarrow> ''Failed to fetch weather data'')
                     status)))"

definition demo_weather :: "string \<Rightarrow> string option \<Rightarrow> jitter \<Rightarrow> endpoint_response" where
  "demo_weather loc apiKey rnd =
     (let mockWeatherData = generateMockWeather loc rnd;
          outfit = generateOutfitRecommendation mockWeatherData;
          demoReason =
            (if \<not> truthy apiKey then ''No API key found in environment variables''
             else ''API key exists but returned 401 (likely not activated yet - takes 1-2 hours for new OpenWeatherMap accounts)'')
      in Weather_response (snapshot_of mockWeatherData) outfit True (Some demoReason))"

text \<open>
  The handler of \<open>POST /make-server-0cb63601/weather\<close>, on the request, the value of
  \<open>OPENWEATHER_API_KEY\<close>, the outcome of the provider call (made only when the key is
  set) and the random values. The demo generator lowercases the location, which throws
  when the location is not a string; the outer \<open>catch\<close> answers that.
\<close>

definition weather_endpoint ::
    "request \<Rightarrow> string option \<Rightarrow> upstream \<Rightarrow> jitter \<Rightarrow> endpoint_response" where
  "weather_endpoint req apiKey up rnd =
     (case req of
        Unreadable_request \<Rightarrow> Caught_response
      | Parsed_request location \<Rightarrow>
          if \<not> truthy_location location then Error_response ''Location is required'' 400
          else
            (case (if truthy apiKey then live_weather up else None) of
               Some response \<Rightarrow> response
             | None \<Rightarrow>
                 (case location of
                    Location_text place \<Rightarrow> demo_weather place apiKey rnd
                  | _ \<Rightarrow> Caught_response)))"

section \<open>Outfit image job (pollStatus)\<close>

text \<open>
  What one call of the status endpoint comes to for the loop: something is thrown (the
  fetch rejects, or the body is not JSON), the response is not ok, or the body is read,
  with its \<open>status\<close>, \<open>imageUrl\<close> and \<open>error\<close> fields.
\<close>

datatype poll_response =
  Poll_throws string
| Poll_not_ok
| Poll_status string "string option" "string option"

text \<open>How the loop ends: it returns after the image is stored, or an error is thrown.\<close>

datatype poll_outcome =
  Image_ready string
| Thrown string

text \<open>The counter of the loop, and the delays waited so far, in milliseconds.\<close>

record poll_state =
  attempts :: nat
  delays :: "nat list"

definition maxAttempts :: nat where
  "maxAttempts = 120"

text \<open>The test \<open>status === 'success' && imageUrl\<close>, with the URL it lets through.\<close>

fun ready_image :: "string \<Rightarrow> string option \<Rightarrow> string option" where
  "ready_image status (Some url) = (if status = ''success'' \<and> url \<noteq> [] then Some url else None)"
| "ready_image status None = None"

text \<open>
  The loop, against the responses of the status endpoint numbered by attempt
  (\<open>statuses n\<close> answers the \<open>n\<close>-th call).
\<close>

function pollStatus :: "(nat \<Rightarrow> poll_response) \<Rightarrow> poll_state \<Rightarrow> poll_outcome \<times> poll_state" where
  "pollStatus statuses st =
     (if attempts st \<ge> maxAttempts then (Thrown ''Generation timeout - please try again'', st)
      else
        let st' = st\<lparr>attempts := attempts st + 1\<rparr>
        in case statuses (attempts st') of
             Poll_throws message \<Rightarrow> (Thrown message, st')
           | Poll_not_ok \<Rightarrow> (Thrown ''Failed to check status'', st')
           | Poll_status status imageUrl err \<Rightarrow>
               (case ready_image status imageUrl of
                  Some url \<Rightarrow> (Image_ready url, st')
                | None \<Rightarrow>
               if status = ''create_failed'' \<or> status = ''generation_failed'' then
                 (Thrown (case err of
                            Some text \<Rightarrow> if text \<noteq> [] then text else ''Generation failed''
                          | None \<Rightarrow> ''Generation failed''), st')
               else pollStatus statuses (st'\<lparr>delays := delays st' @ [5000]\<rparr>)))"
  by pat_completeness auto
termination
  by (relation "measure (\<lambda>(statuses, st). maxAttempts - attempts st)") auto

declare pollStatus.simps [simp del]

text \<open>
  The job as the transcript shows it (the \<open>generatedOutfit\<close> of the message), and the
  one update that ends it: the image on success, the error message otherwise.
\<close>

record generated_outfit =
  job_cityName :: string
  job_imageUrl :: "string option"
  job_isGenerating :: bool
  job_error :: "string option"
  job_taskId :: "string option"

fun job_after :: "string \<Rightarrow> poll_outcome \<Rightarrow> generated_outfit" where
  "job_after city (Image_ready url) =
     \<lparr>job_cityName = city, job_imageUrl = Some url, job_isGenerating = False, job_error = None, job_taskId = None\<rparr>"
| "job_after city (Thrown message) =
     \<lparr>job_cityName = city, job_imageUrl = None, job_isGenerating = False,
      job_error = Some (if message \<noteq> [] then message else ''Failed to generate outfit image''),
      job_taskId = None\<rparr>"

definition start_state :: poll_state where
  "start_state = \<lparr>attempts = 0, delays = []\<rparr>"

text \<open>The responses on which the loop does not poll again.\<close>

fun ends_polling :: "poll_response \<Rightarrow> bool" where
  "ends_polling (Poll_status status imageUrl err) =
     (ready_image status imageUrl \<noteq> None
      \<or> status = ''create_failed'' \<or> status = ''generation_failed'')"
| "ends_polling _ = True"

text \<open>Sample runs of the status endpoint.\<close>

definition generating_response :: poll_response where
  "generating_response = Poll_status ''generating'' None None"

definition three_then_success :: "nat \<Rightarrow> poll_response" where
  "three_then_success n =
     (if n = 4 then Poll_status ''success'' (Some ''https://cdn.example/outfit.png'') None
      else generating_response)"

definition always_generating :: "nat \<Rightarrow> poll_response" where
  "always_generating n = generating_response"

definition unknown_then_success :: "nat \<Rightarrow> poll_response" where
  "unknown_then_success n =
     (if n = 1 then Poll_status ''unknown'' None None
      else Poll_status ''success'' (Some ''https://cdn.example/outfit.png'') None)"

definition bare_success_then_failure :: "nat \<Rightarrow> poll_response" where
  "bare_success_then_failure n =
     (if n = 1 then Poll_status ''success'' None None
      else Poll_status ''generation_failed'' None (Some ''out of credits''))"

section \<open>Photo lookup (fetchUnsplashImage)\<close>

text \<open>
  The static image cache, an object literal: its entries in the order they are written.
\<close>

definition imageCache :: "(string \<times> string) list" where
  "imageCache = [
    (''black puffer jacket down coat'',
     ''https://images.unsplash.com/photo-1521681867701-9962f648c1b6?crop=entropy&cs=tinysrgb&fit=max&fm=jpg&ixid=M3w3Nzg4Nzd8MHwxfHNlYXJjaHwxfHxibGFjayUyMHB1ZmZlciUyMGphY2tldHxlbnwxfHx8fDE3NjI4ODg5NjZ8MA&ixlib=rb-4.1.0&q=80&w=1080''),
    (''merino wool thermal shirt'',
     ''https://images.unsplash.com/photo-1673168869484-dce7ec2d0499?crop=entropy&cs=tinysrgb&fit=max&fm=jpg&ixid=M3w3Nzg4Nzd8MHwxfHNlYXJjaHwxfHxtZXJpbm8lMjB3b29sJTIwdGhlcm1hbHxlbnwxfHx8fDE3NjI4ODg5NjZ8MA&ixlib=rb-4.1.0&q=80&w=1080''),
    (''snow boots waterproof'',
     ''https://images.unsplash.com/photo-1690702692894-110f6e88c390?crop=entropy&cs=tinysrgb&fit=max&fm=jpg&ixid=M3w3Nzg4Nzd8MHwxfHNlYXJjaHwxfHxzbm93JTIwYm9vdHMlMjB3YXRlcnByb29mfGVufDF8fHx8MTc2Mjg4ODk2N3ww&ixlib=rb-4.1.0&q=80&w=1080''),
    (''wool scarf knit gloves set'',
     ''https://images.unsplash.com/photo-1639654827521-cb4f5edf8675?crop=entropy&cs=tinysrgb&fit=max&fm=jpg&ixid=M3w3Nzg4Nzd8MHwxfHNlYXJjaHwxfHx3b29sJTIwc2NhcmYlMjBnbG92ZXN8ZW58MXx8fHwxNzYyODg4OTY3fDA&ixlib=rb-4.1.0&q=80&w=1080''),
    (''navy blue winter parka'',
     ''https://images.unsplash.com/photo-1610636359791-bdac02d318b5?crop=entropy&cs=tinysrgb&fit=max&fm=jpg&ixid=M3w3Nzg4Nzd8MHwxfHNlYXJjaHwxfHxuYXZ5JTIwd2ludGVyJTIwcGFya2F8ZW58MXx8fHwxNzYyODg4OTY4fDA&ixlib=rb-4.1.0&q=80&w=1080''),
    (''cable knit sweater beige'',
     ''https://images.unsplash.com/photo-1758537698215-af1e35acb911?crop=entropy&cs=tinysrgb&fit=max&fm=jpg&ixid=M3w3Nzg4Nzd8MHwxfHNlYXJjaHwxfHxjYWJsZSUyMGtuaXQlMjBzd2VhdGVyfGVufDF8fHx8MTc2Mjg4ODk2OHww&ixlib=rb-4.1.0&q=80&w=1080''),
    (''leather winter boots brown'',
     ''https://images.unsplash.com/photo-1639270602419-6392f0723174?crop=entropy&cs=tinysrgb&fit=max&fm=jpg&ixid=M3w3Nzg4Nzd8MHwxfHNlYXJjaHwxfHxsZWF0aGVyJTIwd2ludGVyJTIwYm9vdHN8ZW58MXx8fHwxNzYyODg4OTY4fDA&ixlib=rb-4.1.0&q=80&w=1080''),
    (''beanie hat winter mittens'',
     ''https://images.unsplash.com/photo-1740381698754-3920d7407365?crop=entropy&cs=tinysrgb&fit=max&fm=jpg&ixid=M3w3Nzg4Nzd8MHwxfHNlYXJjaHwxfHxiZWFuaWUlMjB3aW50ZXIlMjBtaXR0ZW5zfGVufDF8fHx8MTc2Mjg4ODk2OXww&ixlib=rb-4.1.0&q=80&w=1080''),
    (''long wool coat gray'',
     ''https://images.unsplash.com/photo-1608227611229-4f8d1d5339b6?crop=entropy&cs=tinysrgb&fit=max&fm=jpg&ixid=M3w3Nzg4Nzd8MHwxfHNlYXJjaHwxfHxsb25nJTIwd29vbCUyMGNvYXR8ZW58MXx8fHwxNzYyODg4OTY5fDA&ixlib=rb-4.1.0&q=80&w=1080''),
    (''turtleneck sweater black'',
     ''https://images.unsplash.com/photo-1591470481729-2bcc11e3acb8?crop=entropy&cs=tinysrgb&fit=max&fm=jpg&ixid=M3w3Nzg4Nzd8MHwxfHNlYXJjaHwxfHx0dXJ0bGVuZWNrJTIwc3dlYXRlciUyMGJsYWNrfGVufDF8fHx8MTc2Mjg4ODk2OXww&ixlib=rb-4.1.0&q=80&w=1080''),
    (''leather ankle boots black'',
     ''https://images.unsplash.com/photo-1571489555750-c932b569ef5d?crop=entropy&cs=tinysrgb&fit=max&fm=jpg&ixid=M3w3Nzg4Nzd8MHwxfHNlYXJjaHwxfHxibGFjayUyMGFua2xlJTIwYm9vdHN8ZW58MXx8fHwxNzYyODg4OTcwfDA&ixlib=rb-4.1.0&q=80&w=1080''),
    (''cashmere scarf winter'',
     ''https://images.unsplash.com/photo-1551381912-4e2e29c7fd17?crop=entropy&cs=tinysrgb&fit=max&fm=jpg&ixid=M3w3Nzg4Nzd8MHwxfHNlYXJjaHwxfHxjYXNobWVyZSUyMHNjYXJmfGVufDF8fHx8MTc2MjgyOTA5Mnww&ixlib=rb-4.1.0&q=80&w=1080''),
    (''blue denim jacket classic'',
     ''https://images.unsplash.com/photo-1580644228275-2b826dbec5bf?crop=entropy&cs=tinysrgb&fit=max&fm=jpg&ixid=M3w3Nzg4Nzd8MHwxfHNlYXJjaHwxfHxibHVlJTIwZGVuaW0lMjBqYWNrZXR8ZW58MXx8fHwxNzYyNzkzNTQxfDA&ixlib=rb-4.1.0&q=80&w=1080''),
    (''cream knit sweater cozy'',
     ''https://images.unsplash.com/photo-1603906650843-b58e94d9df4d?crop=entropy&cs=tinysrgb&fit=max&fm=jpg&ixid=M3w3Nzg4Nzd8MHwxfHNlYXJjaHwxfHxjcmVhbSUyMGtuaXQlMjBzd2VhdGVyfGVufDF8fHx8MTc2Mjg4ODk3MXww&ixlib=rb-4.1.0&q=80&w=1080''),
    (''suede ankle boots tan'',
     ''https://images.unsplash.com/photo-1761052720710-32349209f6b4?crop=entropy&cs=tinysrgb&fit=max&fm=jpg&ixid=M3w3Nzg4Nzd8MHwxfHNlYXJjaHwxfHxzdWVkZSUyMGFua2xlJTIwYm9vdHN8ZW58MXx8fHwxNzYyODg4OTcxfDA&ixlib=rb-4.1.0&q=80&w=1080''),
    (''plaid scarf wool'',
     ''https://images.unsplash.com/photo-1609803384069-19f3e5a70e75?crop=entropy&cs=tinysrgb&fit=max&fm=jpg&ixid=M3w3Nzg4Nzd8MHwxfHNlYXJjaHwxfHxwbGFpZCUyMHdvb2wlMjBzY2FyZnxlbnwxfHx8fDE3NjI4ODg5NzJ8MA&ixlib=rb-4.1.0&q=80&w=1080''),
    (''black bomber jacket leather'',
     ''https://images.unsplash.com/photo-1635588773098-7b365495e2f1?crop=entropy&cs=tinysrgb&fit=max&fm=jpg&ixid=M3w3Nzg4Nzd8MHwxfHNlYXJjaHwxfHxibGFjayUyMGJvbWJlciUyMGphY2tldHxlbnwxfHx8fDE3NjI4MTM0MDh8MA&ixlib=rb-4.1.0&q=80&w=1080''),
    (''gray turtleneck sweater'',
     ''https://images.unsplash.com/photo-1603906650843-b58e94d9df4d?crop=entropy&cs=tinysrgb&fit=max&fm=jpg&ixid=M3w3Nzg4Nzd8MHwxfHNlYXJjaHwxfHxncmF5JTIwdHVydGxlbmVja3xlbnwxfHx8fDE3NjI4ODg5NzJ8MA&ixlib=rb-4.1.0&q=80&w=1080''),
    (''black chelsea boots leather'',
     ''https://images.unsplash.com/photo-1608629601270-a0007becead3?crop=entropy&cs=tinysrgb&fit=max&fm=jpg&ixid=M3w3Nzg4Nzd8MHwxfHNlYXJjaHwxfHxjaGVsc2VhJTIwYm9vdHMlMjBsZWF0aGVyfGVufDF8fHx8MTc2MjgwMTkwOXww&ixlib=rb-4.1.0&q=80&w=1080''),
    (''minimalist scarf black'',
     ''https://images.unsplash.com/photo-1644483518975-1a74bff3ab94?crop=entropy&cs=tinysrgb&fit=max&fm=jpg&ixid=M3w3Nzg4Nzd8MHwxfHNlYXJjaHwxfHxibGFjayUyMG1pbmltYWxpc3QlMjBzY2FyZnxlbnwxfHx8fDE3NjI4ODg5NzN8MA&ixlib=rb-4.1.0&q=80&w=1080''),
    (''tan beige wool overcoat jacket'',
     ''https://images.unsplash.com/photo-1539533018447-63fcce2678e3?crop=entropy&cs=tinysrgb&fit=max&fm=jpg&ixid=M3w3Nzg4Nzd8MHwxfHNlYXJjaHwxfHx0YW4lMjB3b29sJTIwb3ZlcmNvYXR8ZW58MXx8fHwxNzYyOTAyMzgxfDA&ixlib=rb-4.1.0&q=80&w=1080''),
    (''burgundy knit pullover sweater crewneck'',
     ''https://images.unsplash.com/photo-1620799140188-3b2a02fd9a77?crop=entropy&cs=tinysrgb&fit=max&fm=jpg&ixid=M3w3Nzg4Nzd8MHwxfHNlYXJjaHwxfHxidXJndW5keSUyMGtuaXQlMjBwdWxsb3ZlcnxlbnwxfHx8fDE3NjI5MDIzODF8MA&ixlib=rb-4.1.0&q=80&w=1080''),
    (''brown leather boots vintage'',
     ''https://images.unsplash.com/photo-1638158980051-f7e67291efed?crop=entropy&cs=tinysrgb&fit=max&fm=jpg&ixid=M3w3Nzg4Nzd8MHwxfHNlYXJjaHwxfHxicm93biUyMGxlYXRoZXIlMjBib290c3xlbnwxfHx8fDE3NjI4ODg5NzR8MA&ixlib=rb-4.1.0&q=80&w=1080''),
    (''chunky knit scarf beige'',
     ''https://images.unsplash.com/photo-1670080589800-6416c8ce8a14?crop=entropy&cs=tinysrgb&fit=max&fm=jpg&ixid=M3w3Nzg4Nzd8MHwxfHNlYXJjaHwxfHxiZWlnZSUyMGtuaXQlMjBzY2FyZnxlbnwxfHx8fDE3NjI4ODg5NzR8MA&ixlib=rb-4.1.0&q=80&w=1080''),
    (''khaki field jacket spring'',
     ''https://images.unsplash.com/photo-1650594506500-c87c4c82bb43?crop=entropy&cs=tinysrgb&fit=max&fm=jpg&ixid=M3w3Nzg4Nzd8MHwxfHNlYXJjaHwxfHxraGFraSUyMGZpZWxkJTIwamFja2V0fGVufDF8fHx8MTc2Mjg4ODk3NXww&ixlib=rb-4.1.0&q=80&w=1080''),
    (''white oxford shirt cotton'',
     ''https://images.unsplash.com/photo-1644860588182-0998b4ef5587?crop=entropy&cs=tinysrgb&fit=max&fm=jpg&ixid=M3w3Nzg4Nzd8MHwxfHNlYXJjaHwxfHx3aGl0ZSUyMG94Zm9yZCUyMHNoaXJ0fGVufDF8fHx8MTc2Mjg4ODk3NXww&ixlib=rb-4.1.0&q=80&w=1080''),
    (''white leather sneakers clean'',
     ''https://images.unsplash.com/photo-1722489291778-cb2a414d6ee0?crop=entropy&cs=tinysrgb&fit=max&fm=jpg&ixid=M3w3Nzg4Nzd8MHwxfHNlYXJjaHwxfHx3aGl0ZSUyMGxlYXRoZXIlMjBzbmVha2Vyc3xlbnwxfHx8fDE3NjI4NTY5Mzl8MA&ixlib=rb-4.1.0&q=80&w=1080''),
    (''navy cardigan button front'',
     ''https://images.unsplash.com/photo-1758981400268-1181291b9503?crop=entropy&cs=tinysrgb&fit=max&fm=jpg&ixid=M3w3Nzg4Nzd8MHwxfHNlYXJjaHwxfHxidXR0b24lMjBjYXJkaWdhbiUyMHN3ZWF0ZXJ8ZW58MXx8fHwxNzYyOTAxMDcwfDA&ixlib=rb-4.1.0&q=80&w=1080''),
    (''striped polo shirt casual'',
     ''https://images.unsplash.com/photo-1760287363713-a864ca9b1b1f?crop=entropy&cs=tinysrgb&fit=max&fm=jpg&ixid=M3w3Nzg4Nzd8MHwxfHNlYXJjaHwxfHxzdHJpcGVkJTIwcG9sbyUyMHNoaXJ0fGVufDF8fHx8MTc2Mjg4ODk3Nnww&ixlib=rb-4.1.0&q=80&w=1080''),
    (''brown suede loafers'',
     ''https://images.unsplash.com/photo-1664095885197-fdff6611560c?crop=entropy&cs=tinysrgb&fit=max&fm=jpg&ixid=M3w3Nzg4Nzd8MHwxfHNlYXJjaHwxfHxicm93biUyMHN1ZWRlJTIwbG9hZmVyc3xlbnwxfHx8fDE3NjI4ODg5Nzd8MA&ixlib=rb-4.1.0&q=80&w=1080''),
    (''blue windbreaker jacket athletic'',
     ''https://images.unsplash.com/photo-1548126032-079a0fb0099d?crop=entropy&cs=tinysrgb&fit=max&fm=jpg&ixid=M3w3Nzg4Nzd8MHwxfHNlYXJjaHwxfHx3aW5kYnJlYWtlciUyMGphY2tldHxlbnwxfHx8fDE3NjI4OTExODN8MA&ixlib=rb-4.1.0&q=80&w=1080''),
    (''gray henley shirt long sleeve'',
     ''https://images.unsplash.com/photo-1693443688057-85f57b872a3c?crop=entropy&cs=tinysrgb&fit=max&fm=jpg&ixid=M3w3Nzg4Nzd8MHwxfHNlYXJjaHwxfHxncmF5JTIwaGVubGV5JTIwc2hpcnR8ZW58MXx8fHwxNzYyODg4OTgxfDA&ixlib=rb-4.1.0&q=80&w=1080''),
    (''running shoes athletic colorful'',
     ''https://images.unsplash.com/photo-1739132268718-53d64165d29a?crop=entropy&cs=tinysrgb&fit=max&fm=jpg&ixid=M3w3Nzg4Nzd8MHwxfHNlYXJjaHwxfHxjb2xvcmZ1bCUyMHJ1bm5pbmclMjBzaG9lc3xlbnwxfHx8fDE3NjI3ODIzODZ8MA&ixlib=rb-4.1.0&q=80&w=1080''),
    (''plain white tshirt cotton'',
     ''https://images.unsplash.com/photo-1644860588182-0998b4ef5587?crop=entropy&cs=tinysrgb&fit=max&fm=jpg&ixid=M3w3Nzg4Nzd8MHwxfHNlYXJjaHwxfHx3aGl0ZSUyMGNvdHRvbiUyMHRzaGlydHxlbnwxfHx8fDE3NjI4ODg5ODJ8MA&ixlib=rb-4.1.0&q=80&w=1080''),
    (''gray cardigan lightweight spring'',
     ''https://images.unsplash.com/photo-1611780748105-42c40cdc8eae?crop=entropy&cs=tinysrgb&fit=max&fm=jpg&ixid=M3w3Nzg4Nzd8MHwxfHNlYXJjaHwxfHxjYXJkaWdhbiUyMGJ1dHRvbnMlMjBvcGVufGVufDB8fHx8MTc2MjkwMTA3MXww&ixlib=rb-4.1.0&q=80&w=1080''),
    (''canvas sneakers blue casual'',
     ''https://images.unsplash.com/photo-1758443909732-2c4201e5b590?crop=entropy&cs=tinysrgb&fit=max&fm=jpg&ixid=M3w3Nzg4Nzd8MHwxfHNlYXJjaHwxfHxibHVlJTIwY2FudmFzJTIwc25lYWtlcnN8ZW58MXx8fHwxNzYyODAxNzIzfDA&ixlib=rb-4.1.0&q=80&w=1080''),
    (''navy polo shirt classic'',
     ''https://images.unsplash.com/photo-1692195400719-81a66b4fde89?crop=entropy&cs=tinysrgb&fit=max&fm=jpg&ixid=M3w3Nzg4Nzd8MHwxfHNlYXJjaHwxfHxuYXZ5JTIwcG9sbyUyMHNoaXJ0fGVufDF8fHx8MTc2Mjg4NjAzNXww&ixlib=rb-4.1.0&q=80&w=1080''),
    (''beige chino pants casual'',
     ''https://images.unsplash.com/photo-1756009531697-51da316bfa3a?crop=entropy&cs=tinysrgb&fit=max&fm=jpg&ixid=M3w3Nzg4Nzd8MHwxfHNlYXJjaHwxfHxiZWlnZSUyMGNoaW5vJTIwcGFudHN8ZW58MXx8fHwxNzYyODg4OTgzfDA&ixlib=rb-4.1.0&q=80&w=1080''),
    (''leather oxford shoes brown'',
     ''https://images.unsplash.com/photo-1616663308968-58162d332720?crop=entropy&cs=tinysrgb&fit=max&fm=jpg&ixid=M3w3Nzg4Nzd8MHwxfHNlYXJjaHwxfHxicm93biUyMG94Zm9yZCUyMHNob2VzfGVufDF8fHx8MTc2Mjg4ODk4M3ww&ixlib=rb-4.1.0&q=80&w=1080''),
    (''graphic tshirt black streetwear'',
     ''https://images.unsplash.com/photo-1662103627854-ae7551d1eddb?crop=entropy&cs=tinysrgb&fit=max&fm=jpg&ixid=M3w3Nzg4Nzd8MHwxfHNlYXJjaHwxfHxibGFjayUyMGdyYXBoaWMlMjB0c2hpcnR8ZW58MXx8fHwxNzYyNzk3MTc1fDA&ixlib=rb-4.1.0&q=80&w=1080''),
    (''oversized hoodie gray urban'',
     ''https://images.unsplash.com/photo-1580159851546-833dd8f26318?crop=entropy&cs=tinysrgb&fit=max&fm=jpg&ixid=M3w3Nzg4Nzd8MHwxfHNlYXJjaHwxfHxncmF5JTIwb3ZlcnNpemVkJTIwaG9vZGllfGVufDF8fHx8MTc2Mjg4ODk4NHww&ixlib=rb-4.1.0&q=80&w=1080''),
    (''high top sneakers white street'',
     ''https://images.unsplash.com/photo-1759527588071-e143b4a451b0?crop=entropy&cs=tinysrgb&fit=max&fm=jpg&ixid=M3w3Nzg4Nzd8MHwxfHNlYXJjaHwxfHx3aGl0ZSUyMGhpZ2glMjB0b3AlMjBzbmVha2Vyc3xlbnwxfHx8fDE3NjI4ODg5ODV8MA&ixlib=rb-4.1.0&q=80&w=1080''),
    (''light blue tshirt cotton summer'',
     ''https://images.unsplash.com/photo-1680469975417-a7e5b6ad0784?crop=entropy&cs=tinysrgb&fit=max&fm=jpg&ixid=M3w3Nzg4Nzd8MHwxfHNlYXJjaHwxfHxsaWdodCUyMGJsdWUlMjB0c2hpcnR8ZW58MXx8fHwxNzYyODg4OTg1fDA&ixlib=rb-4.1.0&q=80&w=1080''),
    (''navy blue shorts casual summer'',
     ''https://images.unsplash.com/photo-1624378439140-20d221f1b36d?crop=entropy&cs=tinysrgb&fit=max&fm=jpg&ixid=M3w3Nzg4Nzd8MHwxfHNlYXJjaHwxfHxuYXZ5JTIwYmx1ZSUyMHNob3J0c3xlbnwxfHx8fDE3NjI4ODg5ODV8MA&ixlib=rb-4.1.0&q=80&w=1080''),
    (''leather slide sandals brown'',
     ''https://images.unsplash.com/photo-1663693586817-f7e0ceb27bd7?crop=entropy&cs=tinysrgb&fit=max&fm=jpg&ixid=M3w3Nzg4Nzd8MHwxfHNlYXJjaHwxfHxicm93biUyMGxlYXRoZXIlMjBzYW5kYWxzfGVufDF8fHx8MTc2Mjg4ODk4Nnww&ixlib=rb-4.1.0&q=80&w=1080''),
    (''aviator sunglasses gold'',
     ''https://images.unsplash.com/photo-1732139637229-4be95d41cce8?crop=entropy&cs=tinysrgb&fit=max&fm=jpg&ixid=M3w3Nzg4Nzd8MHwxfHNlYXJjaHwxfHxnb2xkJTIwYXZpYXRvciUyMHN1bmdsYXNzZXN8ZW58MXx8fHwxNzYyODg4OTg2fDA&ixlib=rb-4.1.0&q=80&w=1080''),
    (''white tank top athletic summer'',
     ''https://images.unsplash.com/photo-1759365485726-cfe4166bbfe7?crop=entropy&cs=tinysrgb&fit=max&fm=jpg&ixid=M3w3Nzg4Nzd8MHwxfHNlYXJjaHwxfHx3aGl0ZSUyMGF0aGxldGljJTIwdGFua3xlbnwxfHx8fDE3NjI4ODg5ODd8MA&ixlib=rb-4.1.0&q=80&w=1080''),
    (''light wash denim shorts'',
     ''https://images.unsplash.com/photo-1620231619471-b28081fc3509?crop=entropy&cs=tinysrgb&fit=max&fm=jpg&ixid=M3w3Nzg4Nzd8MHwxfHNlYXJjaHwxfHxsaWdodCUyMGRlbmltJTIwc2hvcnRzfGVufDF8fHx8MTc2Mjg4ODk4N3ww&ixlib=rb-4.1.0&q=80&w=1080''),
    (''rubber flip flops beach black'',
     ''https://images.unsplash.com/photo-1760612887190-ea94041f1920?crop=entropy&cs=tinysrgb&fit=max&fm=jpg&ixid=M3w3Nzg4Nzd8MHwxfHNlYXJjaHwxfHxibGFjayUyMGZsaXAlMjBmbG9wc3xlbnwxfHx8fDE3NjI4ODg5ODd8MA&ixlib=rb-4.1.0&q=80&w=1080''),
    (''classic aviator sunglasses silver'',
     ''https://images.unsplash.com/photo-1589782182703-2aaa69037b5b?crop=entropy&cs=tinysrgb&fit=max&fm=jpg&ixid=M3w3Nzg4Nzd8MHwxfHNlYXJjaHwxfHxzaWx2ZXIlMjBhdmlhdG9yJTIwc3VuZ2xhc3Nlc3xlbnwxfHx8fDE3NjI4ODg5ODh8MA&ixlib=rb-4.1.0&q=80&w=1080''),
    (''beige linen shirt short sleeve'',
     ''https://images.unsplash.com/photo-1651895884377-5f631be84282?crop=entropy&cs=tinysrgb&fit=max&fm=jpg&ixid=M3w3Nzg4Nzd8MHwxfHNlYXJjaHwxfHxiZWlnZSUyMGxpbmVuJTIwc2hpcnR8ZW58MXx8fHwxNzYyODg4OTg4fDA&ixlib=rb-4.1.0&q=80&w=1080''),
    (''white linen pants summer'',
     ''https://images.unsplash.com/photo-1614539655719-256312070de7?crop=entropy&cs=tinysrgb&fit=max&fm=jpg&ixid=M3w3Nzg4Nzd8MHwxfHNlYXJjaHwxfHx3aGl0ZSUyMGxpbmVuJTIwcGFudHN8ZW58MXx8fHwxNzYyODg4OTg5fDA&ixlib=rb-4.1.0&q=80&w=1080''),
    (''cream canvas sneakers summer'',
     ''https://images.unsplash.com/photo-1663151860122-4890a08dc22b?crop=entropy&cs=tinysrgb&fit=max&fm=jpg&ixid=M3w3Nzg4Nzd8MHwxfHNlYXJjaHwxfHxjcmVhbSUyMGNhbnZhcyUyMHNuZWFrZXJzfGVufDF8fHx8MTc2Mjg4ODk4OXww&ixlib=rb-4.1.0&q=80&w=1080''),
    (''round sunglasses tortoise'',
     ''https://images.unsplash.com/photo-1681147768015-c6d3702f5e4f?crop=entropy&cs=tinysrgb&fit=max&fm=jpg&ixid=M3w3Nzg4Nzd8MHwxfHNlYXJjaHwxfHx0b3J0b2lzZSUyMHJvdW5kJTIwc3VuZ2xhc3Nlc3xlbnwxfHx8fDE3NjI4ODg5ODl8MA&ixlib=rb-4.1.0&q=80&w=1080''),
    (''mesh tank top athletic black'',
     ''https://images.unsplash.com/photo-1557437173-01f7fd66bf94?crop=entropy&cs=tinysrgb&fit=max&fm=jpg&ixid=M3w3Nzg4Nzd8MHwxfHNlYXJjaHwxfHxibGFjayUyMG1lc2glMjB0YW5rfGVufDF8fHx8MTc2Mjg4ODk5MHww&ixlib=rb-4.1.0&q=80&w=1080''),
    (''performance shorts athletic gray'',
     ''https://images.unsplash.com/photo-1723972405511-e3785a045721?crop=entropy&cs=tinysrgb&fit=max&fm=jpg&ixid=M3w3Nzg4Nzd8MHwxfHNlYXJjaHwxfHxncmF5JTIwYXRobGV0aWMlMjBzaG9ydHN8ZW58MXx8fHwxNzYyODg4OTkwfDA&ixlib=rb-4.1.0&q=80&w=1080''),
    (''sport sandals outdoor black'',
     ''https://images.unsplash.com/photo-1593548826648-0357b8c884a9?crop=entropy&cs=tinysrgb&fit=max&fm=jpg&ixid=M3w3Nzg4Nzd8MHwxfHNlYXJjaHwxfHxibGFjayUyMHNwb3J0JTIwc2FuZGFsc3xlbnwxfHx8fDE3NjI4ODg5OTB8MA&ixlib=rb-4.1.0&q=80&w=1080''),
    (''straw sun hat wide brim'',
     ''https://images.unsplash.com/photo-1759935937415-49099042fa91?crop=entropy&cs=tinysrgb&fit=max&fm=jpg&ixid=M3w3Nzg4Nzd8MHwxfHNlYXJjaHwxfHxzdHJhdyUyMHdpZGUlMjBicmltJTIwaGF0fGVufDF8fHx8MTc2Mjg4ODk5MXww&ixlib=rb-4.1.0&q=80&w=1080''),
    (''colorful tank top tropical print'',
     ''https://images.unsplash.com/photo-1751024049983-4b1105eb1678?crop=entropy&cs=tinysrgb&fit=max&fm=jpg&ixid=M3w3Nzg4Nzd8MHwxfHNlYXJjaHwxfHxjb2xvcmZ1bCUyMHRyb3BpY2FsJTIwdGFua3xlbnwxfHx8fDE3NjI4ODg5OTF8MA&ixlib=rb-4.1.0&q=80&w=1080''),
    (''swim trunks tropical pattern'',
     ''https://images.unsplash.com/photo-1536685409149-2ca88666aa47?crop=entropy&cs=tinysrgb&fit=max&fm=jpg&ixid=M3w3Nzg4Nzd8MHwxfHNlYXJjaHwxfHx0cm9waWNhbCUyMHN3aW0lMjBzaG9ydHN8ZW58MXx8fHwxNzYyODg4OTkyfDA&ixlib=rb-4.1.0&q=80&w=1080''),
    (''flip flops beach colorful'',
     ''https://images.unsplash.com/photo-1550980451-ef715ac3ef01?crop=entropy&cs=tinysrgb&fit=max&fm=jpg&ixid=M3w3Nzg4Nzd8MHwxfHNlYXJjaHwxfHxjb2xvcmZ1bCUyMGJlYWNoJTIwc2FuZGFsc3xlbnwxfHx8fDE3NjI4ODg5OTV8MA&ixlib=rb-4.1.0&q=80&w=1080''),
    (''baseball cap summer white'',
     ''https://images.unsplash.com/photo-1611692370244-aebb15c17941?crop=entropy&cs=tinysrgb&fit=max&fm=jpg&ixid=M3w3Nzg4Nzd8MHwxfHNlYXJjaHwxfHx3aGl0ZSUyMGJhc2ViYWxsJTIwY2FwfGVufDF8fHx8MTc2Mjg4ODk5NXww&ixlib=rb-4.1.0&q=80&w=1080''),
    (''technical tshirt outdoor beige'',
     ''https://images.unsplash.com/photo-1742210903945-e41b61e5d9d7?crop=entropy&cs=tinysrgb&fit=max&fm=jpg&ixid=M3w3Nzg4Nzd8MHwxfHNlYXJjaHwxfHxiZWlnZSUyMG91dGRvb3IlMjB0c2hpcnR8ZW58MXx8fHwxNzYyODg4OTk2fDA&ixlib=rb-4.1.0&q=80&w=1080''),
    (''cargo shorts outdoor khaki'',
     ''https://images.unsplash.com/photo-1719473448126-eb1159ec5242?crop=entropy&cs=tinysrgb&fit=max&fm=jpg&ixid=M3w3Nzg4Nzd8MHwxfHNlYXJjaHwxfHxraGFraSUyMGNhcmdvJTIwc2hvcnRzfGVufDF8fHx8MTc2Mjg4ODk5Nnww&ixlib=rb-4.1.0&q=80&w=1080''),
    (''hiking sandals outdoor brown'',
     ''https://images.unsplash.com/photo-1632078646266-236c777374d4?crop=entropy&cs=tinysrgb&fit=max&fm=jpg&ixid=M3w3Nzg4Nzd8MHwxfHNlYXJjaHwxfHxicm93biUyMGhpa2luZyUyMHNhbmRhbHN8ZW58MXx8fHwxNzYyODg4OTk3fDA&ixlib=rb-4.1.0&q=80&w=1080''),
    (''bucket hat outdoor navy'',
     ''https://images.unsplash.com/photo-1682623762727-59194bd4c85b?crop=entropy&cs=tinysrgb&fit=max&fm=jpg&ixid=M3w3Nzg4Nzd8MHwxfHNlYXJjaHwxfHxuYXZ5JTIwYnVja2V0JTIwaGF0fGVufDF8fHx8MTc2Mjg4ODk5N3ww&ixlib=rb-4.1.0&q=80&w=1080''),
    (''umbrella rain'',
     ''https://images.unsplash.com/photo-1757548710136-66a371811d1c?crop=entropy&cs=tinysrgb&fit=max&fm=jpg&ixid=M3w3Nzg4Nzd8MHwxfHNlYXJjaHwxfHxibGFjayUyMHVtYnJlbGxhJTIwcmFpbnxlbnwxfHx8fDE3NjI4ODg5OTd8MA&ixlib=rb-4.1.0&q=80&w=1080'')]"


definition generic_fallback :: string where
  "generic_fallback = ''https://images.unsplash.com/photo-1489987707025-afc232f7ea0f?w=400&h=400&fit=crop''"

text \<open>\<open>split(' ')\<close>: the pieces between single spaces, empty pieces included.\<close>

fun split_from :: "string \<Rightarrow> string \<Rightarrow> string list" where
  "split_from piece [] = [rev piece]"
| "split_from piece (c # cs) =
     (if c = CHR '' '' then rev piece # split_from [] cs else split_from (c # piece) cs)"

definition split_space :: "string \<Rightarrow> string list" where
  "split_space s = split_from [] s"

text \<open>
  What the call to the photo endpoint comes to for the client: something is thrown, the
  response is not ok, or it is ok with or without an \<open>imageUrl\<close>.
\<close>

datatype live_result =
  Live_throws
| Live_not_ok
| Live_ok "string option"

fun live_image :: "live_result \<Rightarrow> string option" where
  "live_image (Live_ok (Some url)) = (if url \<noteq> [] then Some url else None)"
| "live_image _ = None"

text \<open>The score of a cache key: the query words that match one of its words.\<close>

definition word_match :: "string \<Rightarrow> string \<Rightarrow> bool" where
  "word_match qWord kWord = (str_includes kWord qWord \<or> str_includes qWord kWord)"

definition matchCount :: "string list \<Rightarrow> string \<Rightarrow> nat" where
  "matchCount queryWords key =
     (let keyWords = split_space (toLowerCase key)
      in length (filter (\<lambda>qWord. list_ex (word_match qWord) keyWords) queryWords))"

text \<open>\<open>Object.keys(imageCache)\<close>: the keys in the order of the entries.\<close>

definition cacheKeys :: "string list" where
  "cacheKeys = map fst imageCache"

text \<open>
  The keys with their scores, sorted by falling score. \<open>Array.prototype.sort\<close> is
  stable, as \<^const>\<open>sort_key\<close> is.
\<close>

definition scoredKeys :: "string \<Rightarrow> (string \<times> nat) list" where
  "scoredKeys query =
     (let queryWords = split_space (toLowerCase query)
      in sort_key (\<lambda>(key, score). - int score)
           (map (\<lambda>key. (key, matchCount queryWords key)) cacheKeys))"

text \<open>
  What reading a member of the cache gives. The cache is an object literal, so besides
  its own entries it has the members every object inherits from \<open>Object.prototype\<close>,
  as the language defines them: each is a function or, for \<open>__proto__\<close>, an object, so
  truthy and not a string. Any other name gives \<open>undefined\<close>.
\<close>

datatype js_value =
  String_value string
| Inherited_member string
| Undefined_value

definition object_prototype_members :: "string list" where
  "object_prototype_members =
     [''constructor'', ''hasOwnProperty'', ''isPrototypeOf'', ''propertyIsEnumerable'',
      ''toLocaleString'', ''toString'', ''valueOf'', ''__proto__'', ''__defineGetter__'',
      ''__defineSetter__'', ''__lookupGetter__'', ''__lookupSetter__'']"

definition cache_read :: "string \<Rightarrow> js_value" where
  "cache_read key =
     (case map_of imageCache key of
        Some url \<Rightarrow> String_value url
      | None \<Rightarrow>
          if key \<in> set object_prototype_members then Inherited_member key
          else Undefined_value)"

fun value_truthy :: "js_value \<Rightarrow> bool" where
  "value_truthy (String_value s) = (s \<noteq> [])"
| "value_truthy (Inherited_member name) = True"
| "value_truthy Undefined_value = False"

text \<open>
  The lookup with its fallbacks, after the outcome of the live call; the result is the
  value returned.
\<close>

definition fetchUnsplashImage :: "live_result \<Rightarrow> string \<Rightarrow> js_value" where
  "fetchUnsplashImage live query =
     (case live_image live of
        Some url \<Rightarrow> String_value url
      | None \<Rightarrow>
          if value_truthy (cache_read query) then cache_read query
          else
            (case scoredKeys query of
               (key, score) # rest \<Rightarrow>
                 if score \<ge> 2 then cache_read key else String_value generic_fallback
             | [] \<Rightarrow> String_value generic_fallback))"

text \<open>
  The tokens as the specification words them, "tokenize by whitespace": the pieces
  between runs of white space, none empty. The program splits at single spaces.
\<close>

fun whitespace_tokens_from :: "string \<Rightarrow> string \<Rightarrow> string list" where
  "whitespace_tokens_from piece [] = (if piece = [] then [] else [rev piece])"
| "whitespace_tokens_from piece (c # cs) =
     (if is_space c
      then (if piece = [] then [] else [rev piece]) @ whitespace_tokens_from [] cs
      else whitespace_tokens_from (c # piece) cs)"

definition whitespace_tokens :: "string \<Rightarrow> string list" where
  "whitespace_tokens s = whitespace_tokens_from [] s"

subsection \<open>Sample weather inputs\<close>

text \<open>One input in each band, an overcast day at the given temperature.\<close>

definition w_at :: "real \<Rightarrow> weather_data" where
  "w_at t = \<lparr>wd_name = units ''Oslo'', wd_country = ''NO'', wd_temp = t, wd_feels_like = t,
     wd_humidity = 50, wd_main = ''Clouds'', wd_description = ''overcast clouds'',
     wd_wind_speed = 3\<rparr>"


text \<open>A request for Paris, an unknown city at the provider, and mid-range random values.\<close>

definition mid_jitter :: jitter where
  "mid_jitter = \<lparr>rnd_temp = 0.5, rnd_humidity = 0.5, rnd_wind = 0.5, rnd_feels = 0.5\<rparr>"

definition not_found :: upstream where
  "not_found = Upstream_response 404 (Message_doc (Some ''city not found''))"

text \<open>A request for Paris, and one with a number where the location should be.\<close>

definition paris_request :: request where
  "paris_request = Parsed_request (Location_text ''Paris'')"

definition number_request :: request where
  "number_request = Parsed_request (Location_other True)"

text \<open>A query with a tab between its two words.\<close>

definition tab_query :: string where
  "tab_query = ''blue'' @ [CHR 0x09] @ ''denim''"

section \<open>Properties of the outfit rule table\<close>

lemmas char_eval = toLowerCase_def toLowerCase_char_def char_of_def bit_0

lemmas band_tables =
  extreme_cold_variations_def cold_variations_def mild_cool_variations_def
  comfortable_variations_def warm_variations_def hot_variations_def

lemma adjusted_variations:
  "variations (generateOutfitRecommendation w) =
     variations (snow_adjustment (toLowerCase (wd_main w))
       (rain_adjustment (toLowerCase (wd_main w)) (temperature_outfit (wd_temp w))))"
  by (simp add: generateOutfitRecommendation_def Let_def humidity_adjustment_def
      wind_adjustment_def)

lemma adjusted_styles:
  "map style (variations (generateOutfitRecommendation w)) =
     map style (variations (temperature_outfit (wd_temp w)))"
  by (simp add: adjusted_variations snow_adjustment_def rain_adjustment_def add_item_def
      comp_def)

text \<open>
  C6. Whatever the weather, the recommendation has exactly three variations, and their
  style names are those of the band the raw temperature falls in: below 0, from 0 to
  below 10, from 10 to below 18, from 18 to below 25, from 25 to below 30, and 30 or
  more. Before the condition adjustments every variation of the band lists three or four
  items.
\<close>

theorem recommend_band_styles:
  "length (variations (generateOutfitRecommendation w)) = 3 \<and>
   (wd_temp w < 0 \<longrightarrow> map style (variations (generateOutfitRecommendation w)) =
      [''Winter Essential'', ''Urban Winter'', ''Classic Cold Weather'']) \<and>
   (0 \<le> wd_temp w \<and> wd_temp w < 10 \<longrightarrow> map style (variations (generateOutfitRecommendation w)) =
      [''Casual Cool'', ''Modern Edge'', ''Timeless Chic'']) \<and>
   (10 \<le> wd_temp w \<and> wd_temp w < 18 \<longrightarrow> map style (variations (generateOutfitRecommendation w)) =
      [''Smart Casual'', ''Relaxed Comfort'', ''Active Ready'']) \<and>
   (18 \<le> wd_temp w \<and> wd_temp w < 25 \<longrightarrow> map style (variations (generateOutfitRecommendation w)) =
      [''Everyday Casual'', ''Business Casual'', ''Streetwear Vibe'']) \<and>
   (25 \<le> wd_temp w \<and> wd_temp w < 30 \<longrightarrow> map style (variations (generateOutfitRecommendation w)) =
      [''Summer Breeze'', ''Beach Ready'', ''Resort Casual'']) \<and>
   (30 \<le> wd_temp w \<longrightarrow> map style (variations (generateOutfitRecommendation w)) =
      [''Heat Wave'', ''Tropical Vibes'', ''Desert Cool'']) \<and>
   (\<forall>v \<in> set (variations (temperature_outfit (wd_temp w))).
      3 \<le> length (items v) \<and> length (items v) \<le> 4)"
proof -
  have len: "length (variations (generateOutfitRecommendation w)) = 3"
    using arg_cong [OF adjusted_styles [of w], of length]
    by (simp add: temperature_outfit_def band_tables)
  have items: "\<forall>v \<in> set (variations (temperature_outfit (wd_temp w))).
      3 \<le> length (items v) \<and> length (items v) \<le> 4"
    by (simp add: temperature_outfit_def band_tables)
  show ?thesis
    using len items by (simp add: adjusted_styles temperature_outfit_def band_tables)
qed

theorem recommend_band_styles_witness:
  "wd_temp (w_at (-5)) < 0 \<and>
   map style (variations (generateOutfitRecommendation (w_at (-5)))) =
      [''Winter Essential'', ''Urban Winter'', ''Classic Cold Weather''] \<and>
   0 \<le> wd_temp (w_at 5) \<and> wd_temp (w_at 5) < 10 \<and>
   map style (variations (generateOutfitRecommendation (w_at 5))) =
      [''Casual Cool'', ''Modern Edge'', ''Timeless Chic''] \<and>
   10 \<le> wd_temp (w_at 12) \<and> wd_temp (w_at 12) < 18 \<and>
   map style (variations (generateOutfitRecommendation (w_at 12))) =
      [''Smart Casual'', ''Relaxed Comfort'', ''Active Ready''] \<and>
   18 \<le> wd_temp (w_at 20) \<and> wd_temp (w_at 20) < 25 \<and>
   map style (variations (generateOutfitRecommendation (w_at 20))) =
      [''Everyday Casual'', ''Business Casual'', ''Streetwear Vibe''] \<and>
   25 \<le> wd_temp (w_at 27) \<and> wd_temp (w_at 27) < 30 \<and>
   map style (variations (generateOutfitRecommendation (w_at 27))) =
      [''Summer Breeze'', ''Beach Ready'', ''Resort Casual''] \<and>
   30 \<le> wd_temp (w_at 32) \<and>
   map style (variations (generateOutfitRecommendation (w_at 32))) =
      [''Heat Wave'', ''Tropical Vibes'', ''Desert Cool''] \<and>
   hd (variations (temperature_outfit (wd_temp (w_at 12)))) \<in> set (variations (temperature_outfit (wd_temp (w_at 12)))) \<and>
   length (items (hd (variations (temperature_outfit (wd_temp (w_at 12)))))) = 3"
  using recommend_band_styles [of "w_at (-5)"] recommend_band_styles [of "w_at 5"]
    recommend_band_styles [of "w_at 12"] recommend_band_styles [of "w_at 20"]
    recommend_band_styles [of "w_at 27"] recommend_band_styles [of "w_at 32"]
  by (simp add: w_at_def temperature_outfit_def mild_cool_variations_def)




section \<open>Properties of the demo weather and the weather endpoint\<close>

text \<open>
  C10. For every location, with a table profile or a seeded one, and for every value of
  the random jitter, the humidity of the demo weather lies between 30 and 100 and its wind
  speed is at least 0.5.
\<close>

theorem mock_weather_bounds:
  "30 \<le> wd_humidity (generateMockWeather location rnd) \<and>
   wd_humidity (generateMockWeather location rnd) \<le> 100 \<and>
   0.5 \<le> wd_wind_speed (generateMockWeather location rnd)"
  by (simp add: generateMockWeather_def Let_def)

lemma live_weather_error:
  "live_weather up = Some (Error_response msg st) \<Longrightarrow>
     \<exists>body. up = Upstream_response st body \<and> \<not> response_ok st \<and> st \<noteq> 401 \<and> body \<noteq> Unreadable"
  by (cases up) (auto split: if_splits upstream_body.splits option.splits)

lemma live_weather_not_caught: "live_weather up \<noteq> Some Caught_response"
  by (cases up) (auto split: if_splits upstream_body.splits option.splits)

lemma live_weather_degrades:
  "up = Fetch_throws \<or> (\<exists>body. up = Upstream_response 401 body) \<Longrightarrow> live_weather up = None"
  by (auto simp: response_ok_def)

text \<open>
  C9, as stated, fails: with a location that is not a string, a number say, a missing
  key, a 401 answer and a fetch that throws all end in the outer \<open>catch\<close>, which
  answers with an error; so does a request body that cannot be read.
\<close>

theorem outer_catch_answers:
  "\<not> truthy None \<and> truthy_location (Location_other True) \<and>
   weather_endpoint number_request None not_found mid_jitter = Caught_response \<and>
   weather_endpoint number_request (Some ''key'') (Upstream_response 401 Unreadable) mid_jitter =
     Caught_response \<and>
   weather_endpoint number_request (Some ''key'') Fetch_throws mid_jitter = Caught_response \<and>
   weather_endpoint Unreadable_request None not_found mid_jitter = Caught_response"
  by (simp add: weather_endpoint_def number_request_def response_ok_def)

text \<open>
  C9, amended. The endpoint answers with an error text and status only when the location
  is missing or the provider answers, with a body that can be read, a status that is
  neither ok nor 401; its outer \<open>catch\<close> answers only when the request body cannot be
  read or the location is not a string. With a location string, a missing key, a fetch
  that throws and a 401 answer all give the demo weather for that location, with the
  demo flag set and a reason.
\<close>

theorem weather_endpoint_failures:
  "(weather_endpoint req apiKey up rnd = Error_response msg st \<longrightarrow>
      (\<exists>location. req = Parsed_request location \<and> \<not> truthy_location location) \<or>
      (truthy apiKey \<and>
       (\<exists>body. up = Upstream_response st body \<and> \<not> response_ok st \<and> st \<noteq> 401 \<and>
          body \<noteq> Unreadable))) \<and>
   (weather_endpoint req apiKey up rnd = Caught_response \<longrightarrow>
      req = Unreadable_request \<or> (\<exists>t. req = Parsed_request (Location_other t))) \<and>
   (req = Parsed_request (Location_text place) \<and> place \<noteq> [] \<and>
    (\<not> truthy apiKey \<or> up = Fetch_throws \<or> (\<exists>body. up = Upstream_response 401 body)) \<longrightarrow>
      (\<exists>reason. reason \<noteq> [] \<and>
         weather_endpoint req apiKey up rnd =
           Weather_response (snapshot_of (generateMockWeather place rnd))
             (generateOutfitRecommendation (generateMockWeather place rnd)) True (Some reason)))"
proof (intro conjI impI)
  assume err: "weather_endpoint req apiKey up rnd = Error_response msg st"
  show "(\<exists>location. req = Parsed_request location \<and> \<not> truthy_location location) \<or>
      (truthy apiKey \<and>
       (\<exists>body. up = Upstream_response st body \<and> \<not> response_ok st \<and> st \<noteq> 401 \<and>
          body \<noteq> Unreadable))"
  proof (cases req)
    case Unreadable_request
    with err show ?thesis
      by (simp add: weather_endpoint_def)
  next
    case (Parsed_request location)
    show ?thesis
    proof (cases "truthy_location location")
      case False
      with Parsed_request show ?thesis by simp
    next
      case True
      have live: "truthy apiKey \<and> live_weather up = Some (Error_response msg st)"
      proof (cases "if truthy apiKey then live_weather up else None")
        case None
        with err Parsed_request True show ?thesis
          by (cases location) (simp_all add: weather_endpoint_def demo_weather_def Let_def)
      next
        case (Some response)
        with err Parsed_request True show ?thesis
          by (auto simp: weather_endpoint_def split: if_splits)
      qed
      with live_weather_error [of up msg st] show ?thesis
        by blast
    qed
  qed
next
  assume caught: "weather_endpoint req apiKey up rnd = Caught_response"
  show "req = Unreadable_request \<or> (\<exists>t. req = Parsed_request (Location_other t))"
  proof (cases req)
    case Unreadable_request
    then show ?thesis by simp
  next
    case (Parsed_request location)
    show ?thesis
    proof (cases location)
      case No_location
      with caught Parsed_request show ?thesis
        by (simp add: weather_endpoint_def)
    next
      case (Location_text place)
      with caught Parsed_request live_weather_not_caught [of up] show ?thesis
        by (auto simp: weather_endpoint_def demo_weather_def Let_def
            split: if_splits option.splits)
    next
      case (Location_other t)
      with Parsed_request show ?thesis by simp
    qed
  qed
next
  assume h: "req = Parsed_request (Location_text place) \<and> place \<noteq> [] \<and>
    (\<not> truthy apiKey \<or> up = Fetch_throws \<or> (\<exists>body. up = Upstream_response 401 body))"
  show "\<exists>reason. reason \<noteq> [] \<and>
         weather_endpoint req apiKey up rnd =
           Weather_response (snapshot_of (generateMockWeather place rnd))
             (generateOutfitRecommendation (generateMockWeather place rnd)) True (Some reason)"
  proof (cases "truthy apiKey")
    case False
    with h show ?thesis
      by (simp add: weather_endpoint_def demo_weather_def Let_def)
  next
    case True
    from h True have "up = Fetch_throws \<or> (\<exists>body. up = Upstream_response 401 body)"
      by simp
    then have "live_weather up = None"
      by (rule live_weather_degrades)
    with h True show ?thesis
      by (simp add: weather_endpoint_def demo_weather_def Let_def)
  qed
qed

theorem weather_endpoint_failures_witness:
  "weather_endpoint paris_request (Some ''key'') not_found mid_jitter =
     Error_response ''city not found'' 404 \<and>
   truthy (Some ''key'') \<and> \<not> response_ok 404 \<and>
   weather_endpoint (Parsed_request No_location) None not_found mid_jitter =
     Error_response ''Location is required'' 400 \<and>
   weather_endpoint number_request None not_found mid_jitter = Caught_response \<and>
   (\<exists>reason. reason \<noteq> [] \<and>
      weather_endpoint paris_request None not_found mid_jitter =
        Weather_response (snapshot_of (generateMockWeather ''Paris'' mid_jitter))
          (generateOutfitRecommendation (generateMockWeather ''Paris'' mid_jitter)) True
          (Some reason))"
  using weather_endpoint_failures [of paris_request "Some ''key''" not_found mid_jitter
      "''city not found''" 404 "''Paris''"]
    weather_endpoint_failures [of paris_request None not_found mid_jitter
      "''city not found''" 404 "''Paris''"]
    weather_endpoint_failures [of number_request None not_found mid_jitter
      "''city not found''" 404 "''Paris''"]
  by (simp add: weather_endpoint_def not_found_def response_ok_def paris_request_def
      number_request_def)

text \<open>An error status with a weather document as body is answered as an error.\<close>

lemma weather_doc_error:
  "weather_endpoint paris_request (Some ''key'') (Upstream_response 500 (Weather_doc w)) rnd =
     Error_response ''Failed to fetch weather data'' 500"
  by (simp add: weather_endpoint_def paris_request_def response_ok_def)

section \<open>Properties of the outfit image job\<close>

lemma poll_again:
  assumes "attempts st < maxAttempts" "\<not> ends_polling (statuses (Suc (attempts st)))"
  shows "pollStatus statuses st =
         pollStatus statuses (st\<lparr>attempts := Suc (attempts st), delays := delays st @ [5000]\<rparr>)"
  using assms
  by (subst pollStatus.simps) (auto simp: Let_def split: poll_response.splits)

lemma poll_stops:
  assumes "attempts st < maxAttempts" "ends_polling (statuses (Suc (attempts st)))"
  shows "snd (pollStatus statuses st) = st\<lparr>attempts := Suc (attempts st)\<rparr>"
  using assms
  by (subst pollStatus.simps) (auto simp: Let_def split: poll_response.splits option.splits)

lemma poll_skip:
  "attempts st + k \<le> maxAttempts \<Longrightarrow>
   (\<And>i. attempts st < i \<Longrightarrow> i \<le> attempts st + k \<Longrightarrow> \<not> ends_polling (statuses i)) \<Longrightarrow>
   pollStatus statuses st =
   pollStatus statuses
     (st\<lparr>attempts := attempts st + k, delays := delays st @ replicate k 5000\<rparr>)"
proof (induction k arbitrary: st)
  case 0
  then show ?case by simp
next
  case (Suc k)
  let ?st = "st\<lparr>attempts := Suc (attempts st), delays := delays st @ [5000]\<rparr>"
  have "pollStatus statuses st = pollStatus statuses ?st"
    using Suc.prems by (intro poll_again) auto
  also have "\<dots> = pollStatus statuses
      (?st\<lparr>attempts := attempts ?st + k, delays := delays ?st @ replicate k 5000\<rparr>)"
    using Suc.prems by (intro Suc.IH) auto
  finally show ?case by (simp add: replicate_append_same)
qed

lemma poll_timeout:
  "attempts st = maxAttempts \<Longrightarrow>
   pollStatus statuses st = (Thrown ''Generation timeout - please try again'', st)"
  by (subst pollStatus.simps) simp


lemma poll_last:
  assumes "attempts st < maxAttempts" "ends_polling (statuses (Suc (attempts st)))"
    and "statuses' (Suc (attempts st)) = statuses (Suc (attempts st))"
  shows "pollStatus statuses' st = pollStatus statuses st"
proof (cases "statuses (Suc (attempts st))")
  case (Poll_status status imageUrl err)
  with assms show ?thesis
    by (cases "ready_image status imageUrl")
      (simp_all add: pollStatus.simps [of statuses st] pollStatus.simps [of statuses' st] Let_def)
qed (use assms in \<open>simp_all add: pollStatus.simps [of statuses st]
      pollStatus.simps [of statuses' st] Let_def\<close>)

lemma generating_goes_on [simp]: "\<not> ends_polling generating_response"
  by (simp add: generating_response_def)

text \<open>
  C5. A started job whose first three polls report \<open>generating\<close> and whose fourth
  reports \<open>success\<close> with an image URL ends with the image after exactly four polls,
  with a delay of 5000 ms after each of the first three. A job whose polls 1 to 120 all
  report \<open>generating\<close> ends with the timeout error after exactly 120 polls.
\<close>

theorem generation_job_sequences:
  "(statuses 1 = generating_response \<and> statuses 2 = generating_response \<and>
    statuses 3 = generating_response \<and>
    statuses 4 = Poll_status ''success'' (Some url) err \<and> url \<noteq> [] \<longrightarrow>
      pollStatus statuses start_state =
        (Image_ready url, \<lparr>attempts = 4, delays = [5000, 5000, 5000]\<rparr>) \<and>
      job_after city (fst (pollStatus statuses start_state)) =
        \<lparr>job_cityName = city, job_imageUrl = Some url, job_isGenerating = False,
         job_error = None, job_taskId = None\<rparr>) \<and>
   ((\<forall>n. 1 \<le> n \<and> n \<le> 120 \<longrightarrow> statuses n = generating_response) \<longrightarrow>
      pollStatus statuses start_state =
        (Thrown ''Generation timeout - please try again'',
         \<lparr>attempts = 120, delays = replicate 120 5000\<rparr>) \<and>
      job_after city (fst (pollStatus statuses start_state)) =
        \<lparr>job_cityName = city, job_imageUrl = None, job_isGenerating = False,
         job_error = Some ''Generation timeout - please try again'', job_taskId = None\<rparr>)"
proof (intro conjI impI)
  assume h: "statuses 1 = generating_response \<and> statuses 2 = generating_response \<and>
    statuses 3 = generating_response \<and>
    statuses 4 = Poll_status ''success'' (Some url) err \<and> url \<noteq> []"
  have "\<not> ends_polling (statuses i)" if "0 < i" "i \<le> 3" for i
  proof -
    from that have "i = 1 \<or> i = 2 \<or> i = 3" by auto
    with h show ?thesis by auto
  qed
  then have "pollStatus statuses start_state =
      pollStatus statuses \<lparr>attempts = 3, delays = replicate 3 5000\<rparr>"
    using poll_skip [of start_state 3 statuses]
    by (simp add: start_state_def maxAttempts_def)
  also have "replicate 3 (5000::nat) = [5000, 5000, 5000]"
    by (simp add: numeral_3_eq_3)
  also have "pollStatus statuses \<lparr>attempts = 3, delays = [5000, 5000, 5000]\<rparr> =
      (Image_ready url, \<lparr>attempts = 4, delays = [5000, 5000, 5000]\<rparr>)"
    using h by (subst pollStatus.simps) (simp add: maxAttempts_def)
  finally show run: "pollStatus statuses start_state =
      (Image_ready url, \<lparr>attempts = 4, delays = [5000, 5000, 5000]\<rparr>)" .
  show "job_after city (fst (pollStatus statuses start_state)) =
        \<lparr>job_cityName = city, job_imageUrl = Some url, job_isGenerating = False,
         job_error = None, job_taskId = None\<rparr>"
    by (simp add: run)
next
  assume h: "\<forall>n. 1 \<le> n \<and> n \<le> 120 \<longrightarrow> statuses n = generating_response"
  then have "\<not> ends_polling (statuses i)" if "0 < i" "i \<le> 120" for i
    using that by simp
  then have "pollStatus statuses start_state =
      pollStatus statuses \<lparr>attempts = 120, delays = replicate 120 5000\<rparr>"
    using poll_skip [of start_state 120 statuses]
    by (simp add: start_state_def maxAttempts_def)
  also have "\<dots> = (Thrown ''Generation timeout - please try again'',
         \<lparr>attempts = 120, delays = replicate 120 5000\<rparr>)"
    by (rule poll_timeout) (simp add: maxAttempts_def)
  finally show run: "pollStatus statuses start_state =
        (Thrown ''Generation timeout - please try again'',
         \<lparr>attempts = 120, delays = replicate 120 5000\<rparr>)" .
  show "job_after city (fst (pollStatus statuses start_state)) =
        \<lparr>job_cityName = city, job_imageUrl = None, job_isGenerating = False,
         job_error = Some ''Generation timeout - please try again'', job_taskId = None\<rparr>"
    by (simp add: run)
qed

theorem generation_job_sequences_witness:
  "three_then_success 1 = generating_response \<and> three_then_success 2 = generating_response \<and>
   three_then_success 3 = generating_response \<and>
   three_then_success 4 = Poll_status ''success'' (Some ''https://cdn.example/outfit.png'') None \<and>
   pollStatus three_then_success start_state =
     (Image_ready ''https://cdn.example/outfit.png'',
      \<lparr>attempts = 4, delays = [5000, 5000, 5000]\<rparr>) \<and>
   always_generating 1 = generating_response \<and> always_generating 120 = generating_response \<and>
   pollStatus always_generating start_state =
     (Thrown ''Generation timeout - please try again'',
      \<lparr>attempts = 120, delays = replicate 120 5000\<rparr>)"
  using generation_job_sequences [of three_then_success "''https://cdn.example/outfit.png''" None "''Oslo''"]
    generation_job_sequences [of always_generating "''https://cdn.example/outfit.png''" None "''Oslo''"]
  by (simp add: three_then_success_def always_generating_def)

text \<open>
  C4, as stated, fails: a poll that reports \<open>unknown\<close>, or \<open>success\<close> without an
  image URL, is followed by another poll, and the job changes afterwards.
\<close>

theorem other_status_polls_again:
  "unknown_then_success 1 = Poll_status ''unknown'' None None \<and>
   pollStatus unknown_then_success start_state =
     (Image_ready ''https://cdn.example/outfit.png'', \<lparr>attempts = 2, delays = [5000]\<rparr>) \<and>
   bare_success_then_failure 1 = Poll_status ''success'' None None \<and>
   pollStatus bare_success_then_failure start_state =
     (Thrown ''out of credits'', \<lparr>attempts = 2, delays = [5000]\<rparr>)"
  by (simp add: unknown_then_success_def bare_success_then_failure_def start_state_def
      pollStatus.simps maxAttempts_def)

text \<open>
  C4, amended. The job is terminal once a poll reports \<open>success\<close> with an image URL,
  \<open>create_failed\<close> or \<open>generation_failed\<close>, or the status call fails: when this first
  happens at poll \<open>n\<close>, within the 120 attempts, the loop has made exactly \<open>n\<close> polls
  and makes no more, and nothing the endpoint would answer later changes the result.
\<close>

theorem job_terminal_states:
  "1 \<le> n \<and> n \<le> maxAttempts \<and> ends_polling (statuses n) \<and>
   (\<forall>i. 1 \<le> i \<and> i < n \<longrightarrow> \<not> ends_polling (statuses i)) \<longrightarrow>
     snd (pollStatus statuses start_state) = \<lparr>attempts = n, delays = replicate (n - 1) 5000\<rparr> \<and>
     (\<forall>statuses'. (\<forall>i. i \<le> n \<longrightarrow> statuses' i = statuses i) \<longrightarrow>
        pollStatus statuses' start_state = pollStatus statuses start_state)"
proof (intro impI)
  assume h: "1 \<le> n \<and> n \<le> maxAttempts \<and> ends_polling (statuses n) \<and>
   (\<forall>i. 1 \<le> i \<and> i < n \<longrightarrow> \<not> ends_polling (statuses i))"
  define st where "st = \<lparr>attempts = n - 1, delays = replicate (n - 1) 5000\<rparr>"
  from h have n: "0 < n" "n \<le> maxAttempts"
    by simp_all
  have st: "attempts st < maxAttempts" "Suc (attempts st) = n"
    using n by (simp_all add: st_def)
  have skip: "pollStatus f start_state = pollStatus f st"
    if "\<forall>i. i \<le> n \<longrightarrow> f i = statuses i" for f
  proof -
    have "\<not> ends_polling (f i)" if "0 < i" "i \<le> n - 1" for i
      using that h \<open>\<forall>i. i \<le> n \<longrightarrow> f i = statuses i\<close> by auto
    moreover have "n - 1 \<le> maxAttempts"
      using n by simp
    ultimately show ?thesis
      using poll_skip [of start_state "n - 1" f]
      by (simp add: start_state_def st_def)
  qed
  have "snd (pollStatus statuses st) = st\<lparr>attempts := Suc (attempts st)\<rparr>"
    using st h by (intro poll_stops) simp_all
  then have a: "snd (pollStatus statuses start_state) =
      \<lparr>attempts = n, delays = replicate (n - 1) 5000\<rparr>"
    using skip [of statuses] h by (simp add: st_def)
  have b: "pollStatus f start_state = pollStatus statuses start_state"
    if f: "\<forall>i. i \<le> n \<longrightarrow> f i = statuses i" for f
  proof -
    have "pollStatus f st = pollStatus statuses st"
      using st h f by (intro poll_last) simp_all
    then show ?thesis using skip [of f] skip [of statuses] f by simp
  qed
  from a b show "snd (pollStatus statuses start_state) =
      \<lparr>attempts = n, delays = replicate (n - 1) 5000\<rparr> \<and>
     (\<forall>statuses'. (\<forall>i. i \<le> n \<longrightarrow> statuses' i = statuses i) \<longrightarrow>
        pollStatus statuses' start_state = pollStatus statuses start_state)"
    by blast
qed

theorem job_terminal_states_witness:
  "(1::nat) \<le> 2 \<and> 2 \<le> maxAttempts \<and> ends_polling (unknown_then_success 2) \<and>
   \<not> ends_polling (unknown_then_success 1) \<and>
   snd (pollStatus unknown_then_success start_state) = \<lparr>attempts = 2, delays = [5000]\<rparr> \<and>
   pollStatus (unknown_then_success(3 := Poll_not_ok)) start_state =
     pollStatus unknown_then_success start_state"
proof -
  have hyp: "1 \<le> (2::nat) \<and> 2 \<le> maxAttempts \<and> ends_polling (unknown_then_success 2) \<and>
     (\<forall>i. 1 \<le> i \<and> i < 2 \<longrightarrow> \<not> ends_polling (unknown_then_success i))"
    by (auto simp: maxAttempts_def unknown_then_success_def)
  have same: "\<forall>i. i \<le> 2 \<longrightarrow> (unknown_then_success(3 := Poll_not_ok)) i = unknown_then_success i"
    by simp
  from job_terminal_states [of 2 unknown_then_success] hyp same
  have "snd (pollStatus unknown_then_success start_state) =
      \<lparr>attempts = 2, delays = replicate (2 - 1) 5000\<rparr> \<and>
    pollStatus (unknown_then_success(3 := Poll_not_ok)) start_state =
      pollStatus unknown_then_success start_state"
    by blast
  with hyp show ?thesis
    by (simp add: unknown_then_success_def)
qed

section \<open>Properties of the photo lookup\<close>

lemma cache_keys_distinct: "distinct (map fst imageCache)"
  by (simp add: imageCache_def)

lemma cache_urls_nonempty: "list_all (\<lambda>entry. snd entry \<noteq> []) imageCache"
  by (simp add: imageCache_def)

lemma cache_urls_not_generic: "list_all (\<lambda>entry. snd entry \<noteq> generic_fallback) imageCache"
  by (simp add: imageCache_def generic_fallback_def)

lemma cache_read_entry:
  assumes "(key, url) \<in> set imageCache"
  shows "cache_read key = String_value url" and "url \<noteq> []"
proof -
  from assms have "map_of imageCache key = Some url"
    using cache_keys_distinct by simp
  then show "cache_read key = String_value url"
    by (simp add: cache_read_def)
  from assms cache_urls_nonempty show "url \<noteq> []"
    by (auto simp: list_all_iff)
qed

lemma cache_key_entry: "key \<in> set cacheKeys \<Longrightarrow> \<exists>url. (key, url) \<in> set imageCache"
  by (auto simp: cacheKeys_def)

lemma cache_read_other:
  "key \<notin> set cacheKeys \<Longrightarrow> key \<notin> set object_prototype_members \<Longrightarrow>
     cache_read key = Undefined_value"
  by (simp add: cache_read_def cacheKeys_def map_of_eq_None_iff [THEN iffD2])

lemma cacheKeys_nonempty: "cacheKeys \<noteq> []"
  by (simp add: cacheKeys_def imageCache_def)

lemma scoredKeys_head:
  "\<exists>key rest. scoredKeys query = (key, matchCount (split_space (toLowerCase query)) key) # rest
     \<and> key \<in> set cacheKeys
     \<and> (\<forall>k \<in> set cacheKeys.
          matchCount (split_space (toLowerCase query)) k
            \<le> matchCount (split_space (toLowerCase query)) key)"
proof -
  let ?qw = "split_space (toLowerCase query)"
  let ?scored = "map (\<lambda>key. (key, matchCount ?qw key)) cacheKeys"
  let ?f = "\<lambda>(key :: string, score :: nat). - int score"
  have "length (scoredKeys query) = length cacheKeys"
    by (simp add: scoredKeys_def Let_def)
  with cacheKeys_nonempty have "scoredKeys query \<noteq> []"
    by auto
  then obtain e rest where er: "scoredKeys query = e # rest"
    by (cases "scoredKeys query") auto
  have set_eq: "set (scoredKeys query) = set ?scored"
    by (simp add: scoredKeys_def Let_def)
  have srt: "sorted (map ?f (scoredKeys query))"
    by (simp add: scoredKeys_def Let_def)
  from er set_eq have "e \<in> set ?scored"
    by (metis list.set_intros(1))
  then obtain key where e: "e = (key, matchCount ?qw key)" "key \<in> set cacheKeys"
    by auto
  have "matchCount ?qw k \<le> matchCount ?qw key" if "k \<in> set cacheKeys" for k
  proof -
    from that set_eq have "(k, matchCount ?qw k) \<in> set (scoredKeys query)"
      by auto
    with er srt e have "?f e \<le> ?f (k, matchCount ?qw k)"
      by auto
    with e show ?thesis by simp
  qed
  with er e show ?thesis by blast
qed

lemma denim_scores:
  "hd (scoredKeys ''blue denim jacket'') = (''blue denim jacket classic'', 3)"
  by (simp add: scoredKeys_def cacheKeys_def imageCache_def split_space_def char_eval
      matchCount_def word_match_def)

lemma denim_not_cached: "cache_read ''blue denim jacket'' = Undefined_value"
  by (simp add: cache_read_def imageCache_def object_prototype_members_def)

lemma denim_classic_url:
  "map_of imageCache ''blue denim jacket classic'' =
     Some ''https://images.unsplash.com/photo-1580644228275-2b826dbec5bf?crop=entropy&cs=tinysrgb&fit=max&fm=jpg&ixid=M3w3Nzg4Nzd8MHwxfHNlYXJjaHwxfHxibHVlJTIwZGVuaW0lMjBqYWNrZXR8ZW58MXx8fHwxNzYyNzkzNTQxfDA&ixlib=rb-4.1.0&q=80&w=1080''"
  by (simp add: imageCache_def)

lemma denim_lookup:
  assumes "live_image live = None"
  shows "fetchUnsplashImage live ''blue denim jacket'' =
           String_value ''https://images.unsplash.com/photo-1580644228275-2b826dbec5bf?crop=entropy&cs=tinysrgb&fit=max&fm=jpg&ixid=M3w3Nzg4Nzd8MHwxfHNlYXJjaHwxfHxibHVlJTIwZGVuaW0lMjBqYWNrZXR8ZW58MXx8fHwxNzYyNzkzNTQxfDA&ixlib=rb-4.1.0&q=80&w=1080''"
proof -
  obtain key rest where "scoredKeys ''blue denim jacket'' = key # rest"
    using scoredKeys_head [of "''blue denim jacket''"] by blast
  with denim_scores have "scoredKeys ''blue denim jacket'' = (''blue denim jacket classic'', 3) # rest"
    by simp
  with assms denim_not_cached denim_classic_url show ?thesis
    by (simp add: fetchUnsplashImage_def cache_read_def)
qed

lemma constructor_not_cached: "map_of imageCache ''constructor'' = None"
  by (simp add: imageCache_def)

lemma tab_query_not_cached: "cache_read tab_query = Undefined_value"
  by (simp add: cache_read_def imageCache_def object_prototype_members_def tab_query_def)

lemma tab_query_scores: "snd (hd (scoredKeys tab_query)) = 1"
  by (simp add: scoredKeys_def cacheKeys_def imageCache_def split_space_def char_eval
      matchCount_def word_match_def tab_query_def)

lemma tab_query_lookup: "fetchUnsplashImage Live_throws tab_query = String_value generic_fallback"
proof -
  obtain key score rest where "scoredKeys tab_query = (key, score) # rest"
    using scoredKeys_head [of tab_query] by blast
  with tab_query_scores have "scoredKeys tab_query = (key, 1) # rest"
    by simp
  with tab_query_not_cached show ?thesis
    by (simp add: fetchUnsplashImage_def)
qed

text \<open>
  C8, as stated, fails in two ways. At a query that names an inherited member of the
  cache object, "constructor", no entry matches, yet the value of that member is
  returned, which is not a ''https://images.unsplash.com/photo-1580644228275-2b826dbec5bf?crop=entropy&cs=tinysrgb&fit=max&fm=jpg&ixid=M3w3Nzg4Nzd8MHwxfHNlYXJjaHwxfHxibHVlJTIwZGVuaW0lMjBqYWNrZXR8ZW58MXx8fHwxNzYyNzkzNTQxfDA&ixlib=rb-4.1.0&q=80&w=1080''. And the query is split at single spaces, not at white
  space: with a tab between "blue" and "denim" the key "blue denim jacket classic"
  scores 2 on the white-space tokens, yet the generic fallback is returned, which is the
  ''https://images.unsplash.com/photo-1580644228275-2b826dbec5bf?crop=entropy&cs=tinysrgb&fit=max&fm=jpg&ixid=M3w3Nzg4Nzd8MHwxfHNlYXJjaHwxfHxibHVlJTIwZGVuaW0lMjBqYWNrZXR8ZW58MXx8fHwxNzYyNzkzNTQxfDA&ixlib=rb-4.1.0&q=80&w=1080'' of no cache entry.
\<close>

theorem inherited_member_returned:
  "live_image Live_throws = None \<and>
   map_of imageCache ''constructor'' = None \<and>
   fetchUnsplashImage Live_throws ''constructor'' = Inherited_member ''constructor'' \<and>
   whitespace_tokens (toLowerCase tab_query) = [''blue'', ''denim''] \<and>
   matchCount [''blue'', ''denim''] ''blue denim jacket classic'' = 2 \<and>
   fetchUnsplashImage Live_throws tab_query = String_value generic_fallback \<and>
   list_all (\<lambda>entry. snd entry \<noteq> generic_fallback) imageCache"
proof -
  have "fetchUnsplashImage Live_throws ''constructor'' = Inherited_member ''constructor''"
    using constructor_not_cached
    by (simp add: fetchUnsplashImage_def cache_read_def object_prototype_members_def)
  moreover have "whitespace_tokens (toLowerCase tab_query) = [''blue'', ''denim'']"
    by (simp add: whitespace_tokens_def tab_query_def char_eval is_space_def)
  moreover have "matchCount [''blue'', ''denim''] ''blue denim jacket classic'' = 2"
    by (simp add: matchCount_def word_match_def split_space_def char_eval)
  ultimately show ?thesis
    using constructor_not_cached tab_query_lookup cache_urls_not_generic by simp
qed

text \<open>
  C8, amended. When the live call yields no image ''https://images.unsplash.com/photo-1580644228275-2b826dbec5bf?crop=entropy&cs=tinysrgb&fit=max&fm=jpg&ixid=M3w3Nzg4Nzd8MHwxfHNlYXJjaHwxfHxibHVlJTIwZGVuaW0lMjBqYWNrZXR8ZW58MXx8fHwxNzYyNzkzNTQxfDA&ixlib=rb-4.1.0&q=80&w=1080'' and the query is not the name of a
  member that every object inherits, the lookup returns a ''https://images.unsplash.com/photo-1580644228275-2b826dbec5bf?crop=entropy&cs=tinysrgb&fit=max&fm=jpg&ixid=M3w3Nzg4Nzd8MHwxfHNlYXJjaHwxfHxibHVlJTIwZGVuaW0lMjBqYWNrZXR8ZW58MXx8fHwxNzYyNzkzNTQxfDA&ixlib=rb-4.1.0&q=80&w=1080''. A query that is a key of
  the static cache gets the ''https://images.unsplash.com/photo-1580644228275-2b826dbec5bf?crop=entropy&cs=tinysrgb&fit=max&fm=jpg&ixid=M3w3Nzg4Nzd8MHwxfHNlYXJjaHwxfHxibHVlJTIwZGVuaW0lMjBqYWNrZXR8ZW58MXx8fHwxNzYyNzkzNTQxfDA&ixlib=rb-4.1.0&q=80&w=1080'' of its entry. Any other query is put in lower case and
  split at single spaces, as every cache key is, each key is scored by the number of
  query words that contain or are contained in one of its words, and a key of highest
  score gives the ''https://images.unsplash.com/photo-1580644228275-2b826dbec5bf?crop=entropy&cs=tinysrgb&fit=max&fm=jpg&ixid=M3w3Nzg4Nzd8MHwxfHNlYXJjaHwxfHxibHVlJTIwZGVuaW0lMjBqYWNrZXR8ZW58MXx8fHwxNzYyNzkzNTQxfDA&ixlib=rb-4.1.0&q=80&w=1080'' of its entry if that score is at least 2; otherwise the generic
  fallback ''https://images.unsplash.com/photo-1580644228275-2b826dbec5bf?crop=entropy&cs=tinysrgb&fit=max&fm=jpg&ixid=M3w3Nzg4Nzd8MHwxfHNlYXJjaHwxfHxibHVlJTIwZGVuaW0lMjBqYWNrZXR8ZW58MXx8fHwxNzYyNzkzNTQxfDA&ixlib=rb-4.1.0&q=80&w=1080'' is returned. The query "blue denim jacket" gets the ''https://images.unsplash.com/photo-1580644228275-2b826dbec5bf?crop=entropy&cs=tinysrgb&fit=max&fm=jpg&ixid=M3w3Nzg4Nzd8MHwxfHNlYXJjaHwxfHxibHVlJTIwZGVuaW0lMjBqYWNrZXR8ZW58MXx8fHwxNzYyNzkzNTQxfDA&ixlib=rb-4.1.0&q=80&w=1080'' cached for
  "blue denim jacket classic", which is not the generic fallback.
\<close>

theorem fetch_image_resolution:
  "live_image live = None \<longrightarrow>
     (query \<notin> set object_prototype_members \<longrightarrow>
        (\<exists>url. fetchUnsplashImage live query = String_value url) \<and>
        (\<forall>url. (query, url) \<in> set imageCache \<longrightarrow>
           fetchUnsplashImage live query = String_value url) \<and>
        (query \<notin> set cacheKeys \<longrightarrow>
           (\<exists>key url. (key, url) \<in> set imageCache \<and>
              (\<forall>k \<in> set cacheKeys.
                 matchCount (split_space (toLowerCase query)) k
                   \<le> matchCount (split_space (toLowerCase query)) key) \<and>
              fetchUnsplashImage live query =
                (if 2 \<le> matchCount (split_space (toLowerCase query)) key
                 then String_value url else String_value generic_fallback)))) \<and>
     fetchUnsplashImage live ''blue denim jacket'' =
       String_value ''https://images.unsplash.com/photo-1580644228275-2b826dbec5bf?crop=entropy&cs=tinysrgb&fit=max&fm=jpg&ixid=M3w3Nzg4Nzd8MHwxfHNlYXJjaHwxfHxibHVlJTIwZGVuaW0lMjBqYWNrZXR8ZW58MXx8fHwxNzYyNzkzNTQxfDA&ixlib=rb-4.1.0&q=80&w=1080'' \<and>
     map_of imageCache ''blue denim jacket classic'' =
       Some ''https://images.unsplash.com/photo-1580644228275-2b826dbec5bf?crop=entropy&cs=tinysrgb&fit=max&fm=jpg&ixid=M3w3Nzg4Nzd8MHwxfHNlYXJjaHwxfHxibHVlJTIwZGVuaW0lMjBqYWNrZXR8ZW58MXx8fHwxNzYyNzkzNTQxfDA&ixlib=rb-4.1.0&q=80&w=1080'' \<and>
     generic_fallback \<noteq>
       ''https://images.unsplash.com/photo-1580644228275-2b826dbec5bf?crop=entropy&cs=tinysrgb&fit=max&fm=jpg&ixid=M3w3Nzg4Nzd8MHwxfHNlYXJjaHwxfHxibHVlJTIwZGVuaW0lMjBqYWNrZXR8ZW58MXx8fHwxNzYyNzkzNTQxfDA&ixlib=rb-4.1.0&q=80&w=1080''"
proof
  assume live: "live_image live = None"
  let ?qw = "split_space (toLowerCase query)"
  have exact: "fetchUnsplashImage live query = String_value url"
    if "(query, url) \<in> set imageCache" for url
    using live cache_read_entry [OF that] by (simp add: fetchUnsplashImage_def)
  have similar: "\<exists>key url. (key, url) \<in> set imageCache \<and>
      (\<forall>k \<in> set cacheKeys. matchCount ?qw k \<le> matchCount ?qw key) \<and>
      fetchUnsplashImage live query =
        (if 2 \<le> matchCount ?qw key then String_value url else String_value generic_fallback)"
    if miss: "query \<notin> set cacheKeys" "query \<notin> set object_prototype_members"
  proof -
    obtain key rest where head: "scoredKeys query = (key, matchCount ?qw key) # rest"
        "key \<in> set cacheKeys"
        "\<forall>k \<in> set cacheKeys. matchCount ?qw k \<le> matchCount ?qw key"
      using scoredKeys_head [of query] by blast
    from head(2) obtain url where entry: "(key, url) \<in> set imageCache"
      using cache_key_entry by blast
    have "fetchUnsplashImage live query =
        (if 2 \<le> matchCount ?qw key then String_value url else String_value generic_fallback)"
      using live cache_read_other [OF miss] head(1) cache_read_entry(1) [OF entry]
      by (simp add: fetchUnsplashImage_def)
    with entry head(3) show ?thesis
      by blast
  qed
  have total: "\<exists>url. fetchUnsplashImage live query = String_value url"
    if "query \<notin> set object_prototype_members"
  proof (cases "query \<in> set cacheKeys")
    case True
    then obtain url where "(query, url) \<in> set imageCache"
      using cache_key_entry by blast
    with exact show ?thesis
      by blast
  next
    case False
    from similar [OF False that] show ?thesis
      by (auto split: if_splits)
  qed
  have denim: "fetchUnsplashImage live ''blue denim jacket'' =
       String_value ''https://images.unsplash.com/photo-1580644228275-2b826dbec5bf?crop=entropy&cs=tinysrgb&fit=max&fm=jpg&ixid=M3w3Nzg4Nzd8MHwxfHNlYXJjaHwxfHxibHVlJTIwZGVuaW0lMjBqYWNrZXR8ZW58MXx8fHwxNzYyNzkzNTQxfDA&ixlib=rb-4.1.0&q=80&w=1080''"
    using denim_lookup [OF live] .
  have other: "generic_fallback \<noteq>
       ''https://images.unsplash.com/photo-1580644228275-2b826dbec5bf?crop=entropy&cs=tinysrgb&fit=max&fm=jpg&ixid=M3w3Nzg4Nzd8MHwxfHNlYXJjaHwxfHxibHVlJTIwZGVuaW0lMjBqYWNrZXR8ZW58MXx8fHwxNzYyNzkzNTQxfDA&ixlib=rb-4.1.0&q=80&w=1080''"
    by (simp add: generic_fallback_def)
  from total exact similar denim denim_classic_url other
  show "(query \<notin> set object_prototype_members \<longrightarrow>
        (\<exists>url. fetchUnsplashImage live query = String_value url) \<and>
        (\<forall>url. (query, url) \<in> set imageCache \<longrightarrow>
           fetchUnsplashImage live query = String_value url) \<and>
        (query \<notin> set cacheKeys \<longrightarrow>
           (\<exists>key url. (key, url) \<in> set imageCache \<and>
              (\<forall>k \<in> set cacheKeys. matchCount ?qw k \<le> matchCount ?qw key) \<and>
              fetchUnsplashImage live query =
                (if 2 \<le> matchCount ?qw key
                 then String_value url else String_value generic_fallback)))) \<and>
     fetchUnsplashImage live ''blue denim jacket'' =
       String_value ''https://images.unsplash.com/photo-1580644228275-2b826dbec5bf?crop=entropy&cs=tinysrgb&fit=max&fm=jpg&ixid=M3w3Nzg4Nzd8MHwxfHNlYXJjaHwxfHxibHVlJTIwZGVuaW0lMjBqYWNrZXR8ZW58MXx8fHwxNzYyNzkzNTQxfDA&ixlib=rb-4.1.0&q=80&w=1080'' \<and>
     map_of imageCache ''blue denim jacket classic'' =
       Some ''https://images.unsplash.com/photo-1580644228275-2b826dbec5bf?crop=entropy&cs=tinysrgb&fit=max&fm=jpg&ixid=M3w3Nzg4Nzd8MHwxfHNlYXJjaHwxfHxibHVlJTIwZGVuaW0lMjBqYWNrZXR8ZW58MXx8fHwxNzYyNzkzNTQxfDA&ixlib=rb-4.1.0&q=80&w=1080'' \<and>
     generic_fallback \<noteq>
       ''https://images.unsplash.com/photo-1580644228275-2b826dbec5bf?crop=entropy&cs=tinysrgb&fit=max&fm=jpg&ixid=M3w3Nzg4Nzd8MHwxfHNlYXJjaHwxfHxibHVlJTIwZGVuaW0lMjBqYWNrZXR8ZW58MXx8fHwxNzYyNzkzNTQxfDA&ixlib=rb-4.1.0&q=80&w=1080''"
    by blast
qed

theorem fetch_image_resolution_witness:
  "live_image Live_throws = None \<and>
   ''blue denim jacket'' \<notin> set object_prototype_members \<and>
   ''blue denim jacket'' \<notin> set cacheKeys \<and>
   fetchUnsplashImage Live_throws ''blue denim jacket'' =
     String_value ''https://images.unsplash.com/photo-1580644228275-2b826dbec5bf?crop=entropy&cs=tinysrgb&fit=max&fm=jpg&ixid=M3w3Nzg4Nzd8MHwxfHNlYXJjaHwxfHxibHVlJTIwZGVuaW0lMjBqYWNrZXR8ZW58MXx8fHwxNzYyNzkzNTQxfDA&ixlib=rb-4.1.0&q=80&w=1080'' \<and>
   live_image (Live_ok None) = None \<and>
   ''umbrella rain'' \<notin> set object_prototype_members \<and>
   (''umbrella rain'',
    ''https://images.unsplash.com/photo-1757548710136-66a371811d1c?crop=entropy&cs=tinysrgb&fit=max&fm=jpg&ixid=M3w3Nzg4Nzd8MHwxfHNlYXJjaHwxfHxibGFjayUyMHVtYnJlbGxhJTIwcmFpbnxlbnwxfHx8fDE3NjI4ODg5OTd8MA&ixlib=rb-4.1.0&q=80&w=1080'') \<in> set imageCache \<and>
   fetchUnsplashImage (Live_ok None) ''umbrella rain'' =
     String_value ''https://images.unsplash.com/photo-1757548710136-66a371811d1c?crop=entropy&cs=tinysrgb&fit=max&fm=jpg&ixid=M3w3Nzg4Nzd8MHwxfHNlYXJjaHwxfHxibGFjayUyMHVtYnJlbGxhJTIwcmFpbnxlbnwxfHx8fDE3NjI4ODg5OTd8MA&ixlib=rb-4.1.0&q=80&w=1080''"
proof -
  have miss: "''blue denim jacket'' \<notin> set cacheKeys"
    by (simp add: cacheKeys_def imageCache_def)
  have held: "(''umbrella rain'',
    ''https://images.unsplash.com/photo-1757548710136-66a371811d1c?crop=entropy&cs=tinysrgb&fit=max&fm=jpg&ixid=M3w3Nzg4Nzd8MHwxfHNlYXJjaHwxfHxibGFjayUyMHVtYnJlbGxhJTIwcmFpbnxlbnwxfHx8fDE3NjI4ODg5OTd8MA&ixlib=rb-4.1.0&q=80&w=1080'') \<in> set imageCache"
    by (simp add: imageCache_def)
  have own: "''blue denim jacket'' \<notin> set object_prototype_members"
      "''umbrella rain'' \<notin> set object_prototype_members"
    by (simp_all add: object_prototype_members_def)
  from miss held own fetch_image_resolution [of Live_throws "''blue denim jacket''"]
    fetch_image_resolution [of "Live_ok None" "''umbrella rain''"]
  show ?thesis by simp
qed

section \<open>Properties of the intent extraction\<close>

subsection \<open>What a match passes on\<close>

lemma wf_pos_step:
  assumes "wf_pos s (i, before, c # cs)"
  shows "wf_pos s (Suc i, Some c, cs)"
proof -
  from assms have d: "drop i s = c # cs" and "i \<le> length s"
    by (simp_all add: wf_pos_def)
  then have "i < length s"
    by (cases "i = length s") auto
  moreover have "drop (Suc i) s = cs"
    using d by (metis drop_Suc list.sel(3) tl_drop)
  ultimately show ?thesis
    by (simp add: wf_pos_def)
qed

lemma pass_here:
  "k x caps = Some res \<Longrightarrow> wf_pos s x \<Longrightarrow>
     \<exists>y. wf_pos s y \<and> fst x \<le> fst y \<and> k y caps = Some res"
  by (rule exI [of _ x]) simp

lemma repeat_passes:
  assumes body: "\<And>x k. body x caps k = Some res \<Longrightarrow> wf_pos s x \<Longrightarrow>
      \<exists>y. wf_pos s y \<and> fst x \<le> fst y \<and> k y caps = Some res"
  shows "repeat greedy body left x caps k = Some res \<Longrightarrow> wf_pos s x \<Longrightarrow>
      \<exists>y. wf_pos s y \<and> fst x \<le> fst y \<and> k y caps = Some res"
proof (induction left arbitrary: x)
  case Nil
  then have "k x caps = Some res" by simp
  from this Nil.prems(2) show ?case by (rule pass_here)
next
  case (Cons c left)
  let ?again = "\<lambda>y caps'. if fst y = fst x then None else repeat greedy body left y caps' k"
  consider (stop) "k x caps = Some res" | (round) "body x caps ?again = Some res"
    using Cons.prems(1) by (auto split: if_splits option.splits)
  then show ?case
  proof cases
    case stop
    from this Cons.prems(2) show ?thesis by (rule pass_here)
  next
    case round
    from body [OF round Cons.prems(2)]
    obtain y where y: "wf_pos s y" "fst x \<le> fst y" "?again y caps = Some res"
      by blast
    then have "repeat greedy body left y caps k = Some res"
      by (auto split: if_splits)
    from Cons.IH [OF this y(1)] y(2) show ?thesis
      by (meson le_trans)
  qed
qed

lemma matcher_passes:
  "group_free r \<Longrightarrow> matcher ic r x caps k = Some res \<Longrightarrow> wf_pos s x \<Longrightarrow>
     \<exists>y. wf_pos s y \<and> fst x \<le> fst y \<and> k y caps = Some res"
proof (induction r arbitrary: x k)
  case (Atom a)
  obtain i before rest where x: "x = (i, before, rest)"
    by (cases x) auto
  with Atom.prems obtain c cs where rest: "rest = c # cs" and k: "k (Suc i, Some c, cs) caps = Some res"
    by (cases rest) (auto split: if_splits)
  from Atom.prems(3) x rest have "wf_pos s (Suc i, Some c, cs)"
    by (auto intro: wf_pos_step)
  with k x show ?case
    by (intro exI [of _ "(Suc i, Some c, cs)"]) simp
next
  case Empty
  then have "k x caps = Some res" by simp
  from this Empty.prems(3) show ?case by (rule pass_here)
next
  case (Seq r1 r2)
  from Seq.prems have "matcher ic r1 x caps (\<lambda>y caps'. matcher ic r2 y caps' k) = Some res"
    by simp
  from Seq.IH(1) [OF _ this Seq.prems(3)] Seq.prems(1)
  obtain y where y: "wf_pos s y" "fst x \<le> fst y" "matcher ic r2 y caps k = Some res"
    by auto
  from Seq.IH(2) [OF _ y(3) y(1)] Seq.prems(1) y(2) show ?case
    by (auto intro: le_trans)
next
  case (Alt r1 r2)
  then show ?case
    by (auto split: option.splits)
next
  case (Star greedy r)
  have body: "\<And>x k. matcher ic r x caps k = Some res \<Longrightarrow> wf_pos s x \<Longrightarrow>
      \<exists>y. wf_pos s y \<and> fst x \<le> fst y \<and> k y caps = Some res"
    using Star.IH Star.prems(1) by simp
  have rep: "repeat greedy (matcher ic r) (snd (snd x)) x caps k = Some res"
    using Star.prems by simp
  show ?case
  proof (rule repeat_passes [where body = "matcher ic r" and greedy = greedy
        and left = "snd (snd x)"])
    show "\<exists>y. wf_pos s y \<and> fst x' \<le> fst y \<and> k' y caps = Some res"
      if "matcher ic r x' caps k' = Some res" "wf_pos s x'" for x' k'
      using body that by blast
  qed (use rep Star.prems(3) in simp_all)
next
  case (Group n r)
  then show ?case by simp
next
  case Eol
  then have "k x caps = Some res"
    by (cases x) (auto split: if_splits)
  from this Eol.prems(3) show ?case by (rule pass_here)
next
  case Word_boundary
  then have "k x caps = Some res"
    by (cases x) (auto split: if_splits)
  from this Word_boundary.prems(3) show ?case by (rule pass_here)
qed


lemma plus_atom_advances:
  assumes "matcher ic (plus greedy (Atom a)) x caps k = Some res" "wf_pos s x"
  shows "\<exists>y. wf_pos s y \<and> fst x < fst y \<and> k y caps = Some res"
proof -
  obtain i before rest where x: "x = (i, before, rest)"
    by (cases x) auto
  let ?k = "\<lambda>y caps'. matcher ic (Star greedy (Atom a)) y caps' k"
  from assms(1) x have "matcher ic (Atom a) (i, before, rest) caps ?k = Some res"
    by (simp add: plus_def)
  then obtain c cs where rest: "rest = c # cs"
      and star: "matcher ic (Star greedy (Atom a)) (Suc i, Some c, cs) caps k = Some res"
    by (cases rest) (auto split: if_splits)
  from assms(2) x rest have wf: "wf_pos s (Suc i, Some c, cs)"
    by (auto intro: wf_pos_step)
  from matcher_passes [OF _ star wf]
  obtain y where "wf_pos s y" "Suc i \<le> fst y" "k y caps = Some res"
    by auto
  with x show ?thesis
    by (intro exI [of _ y]) simp
qed

lemma seq_cons: "rs \<noteq> [] \<Longrightarrow> seq (r # rs) = Seq r (seq rs)"
  by (cases rs) simp_all

lemma seq_list_passes:
  "list_all group_free rs \<Longrightarrow> rest \<noteq> [] \<Longrightarrow>
   matcher ic (seq (rs @ rest)) x caps k = Some res \<Longrightarrow> wf_pos s x \<Longrightarrow>
     \<exists>y. wf_pos s y \<and> fst x \<le> fst y \<and> matcher ic (seq rest) y caps k = Some res"
proof (induction rs arbitrary: x)
  case Nil
  from Nil.prems(3) have "matcher ic (seq rest) x caps k = Some res"
    by simp
  with Nil.prems(4) show ?case
    by (intro exI [of _ x]) simp
next
  case (Cons r rs)
  let ?k = "\<lambda>y caps'. matcher ic (seq (rs @ rest)) y caps' k"
  from Cons.prems(2,3) have "matcher ic r x caps ?k = Some res"
    by (simp add: seq_cons)
  from matcher_passes [OF _ this Cons.prems(4)] Cons.prems(1)
  obtain y where y: "wf_pos s y" "fst x \<le> fst y" "matcher ic (seq (rs @ rest)) y caps k = Some res"
    by auto
  from Cons.IH [OF _ Cons.prems(2) y(3) y(1)] Cons.prems(1)
  obtain z where "wf_pos s z" "fst y \<le> fst z" "matcher ic (seq rest) z caps k = Some res"
    by auto
  with y(2) show ?case
    by (intro exI [of _ z]) simp
qed

lemma two_groups_captures:
  assumes p: "two_groups p"
    and m: "matcher ic p x [] (\<lambda>y caps. Some (i0, fst y, caps)) = Some (i, j, caps)"
    and wf: "wf_pos s x"
  shows "\<exists>a b c d. caps = [(2, c, d), (1, a, b)] \<and> a < b \<and> b \<le> length s \<and> c < d \<and> d \<le> length s"
proof -
  let ?k = "\<lambda>y caps. Some (i0, fst y, caps)"
  from p obtain pre mid g1 a1 g2 a2 where pre: "list_all group_free pre"
      and mid: "list_all group_free mid"
      and shape: "p = seq (pre @ Group 1 (plus g1 (Atom a1)) # mid @ [Group 2 (plus g2 (Atom a2))])"
    unfolding two_groups_def by blast
  let ?G2 = "Group 2 (plus g2 (Atom a2))"
  let ?tail = "Group 1 (plus g1 (Atom a1)) # mid @ [?G2]"
  from seq_list_passes [OF pre _ m [unfolded shape] wf]
  obtain y1 where y1: "wf_pos s y1" "matcher ic (seq ?tail) y1 [] ?k = Some (i, j, caps)"
    by auto
  let ?k1 = "\<lambda>y caps'. matcher ic (seq (mid @ [?G2])) y ((1, fst y1, fst y) # caps') ?k"
  from y1(2) have "matcher ic (plus g1 (Atom a1)) y1 [] ?k1 = Some (i, j, caps)"
    by (simp add: seq_cons)
  from plus_atom_advances [OF this y1(1)]
  obtain y2 where y2: "wf_pos s y2" "fst y1 < fst y2"
      "matcher ic (seq (mid @ [?G2])) y2 [(1, fst y1, fst y2)] ?k = Some (i, j, caps)"
    by auto
  from seq_list_passes [OF mid _ y2(3) y2(1)]
  obtain y3 where y3: "wf_pos s y3"
      "matcher ic (seq [?G2]) y3 [(1, fst y1, fst y2)] ?k = Some (i, j, caps)"
    by auto
  let ?k3 = "\<lambda>y caps'. ?k y ((2, fst y3, fst y) # caps')"
  from y3(2) have "matcher ic (plus g2 (Atom a2)) y3 [(1, fst y1, fst y2)] ?k3 = Some (i, j, caps)"
    by simp
  from plus_atom_advances [OF this y3(1)]
  obtain y4 where y4: "wf_pos s y4" "fst y3 < fst y4"
      "?k3 y4 [(1, fst y1, fst y2)] = Some (i, j, caps)"
    by auto
  from y4(3) have "caps = [(2, fst y3, fst y4), (1, fst y1, fst y2)]"
    by auto
  moreover from y2(1) y4(1) have "fst y2 \<le> length s" "fst y4 \<le> length s"
    by (simp_all add: wf_pos_def)
  ultimately show ?thesis
    using y2(2) y4(2) by blast
qed

lemma exec_from_captures:
  "two_groups p \<Longrightarrow> exec_from ic p i0 before rest = Some (i, j, caps) \<Longrightarrow>
   wf_pos s (i0, before, rest) \<Longrightarrow>
     \<exists>a b c d. caps = [(2, c, d), (1, a, b)] \<and> a < b \<and> b \<le> length s \<and> c < d \<and> d \<le> length s"
proof (induction rest arbitrary: i0 before)
  case Nil
  from Nil.prems(2) have "matcher ic p (i0, before, []) [] (\<lambda>y caps. Some (i0, fst y, caps)) = Some (i, j, caps)"
    by simp
  from two_groups_captures [OF Nil.prems(1) this Nil.prems(3)] show ?case .
next
  case (Cons c cs)
  show ?case
  proof (cases "matcher ic p (i0, before, c # cs) [] (\<lambda>y caps. Some (i0, fst y, caps))")
    case None
    with Cons.prems(2) have "exec_from ic p (Suc i0) (Some c) cs = Some (i, j, caps)"
      by simp
    moreover from Cons.prems(3) have "wf_pos s (Suc i0, Some c, cs)"
      by (rule wf_pos_step)
    ultimately show ?thesis
      using Cons.IH Cons.prems(1) by blast
  next
    case (Some res)
    with Cons.prems(2) have "matcher ic p (i0, before, c # cs) [] (\<lambda>y caps. Some (i0, fst y, caps))
        = Some (i, j, caps)"
      by simp
    from two_groups_captures [OF Cons.prems(1) this Cons.prems(3)] show ?thesis .
  qed
qed

lemma regex_exec_groups:
  assumes "two_groups p" "regex_exec ic p s = Some (i, j, caps)"
  shows "\<exists>g1 g2. group_text s caps 1 = Some g1 \<and> group_text s caps 2 = Some g2 \<and>
           g1 \<noteq> [] \<and> g2 \<noteq> []"
proof -
  have "wf_pos s (0, None, s)"
    by (simp add: wf_pos_def)
  with assms obtain a b c d where "caps = [(2, c, d), (1, a, b)]" "a < b" "b \<le> length s"
      "c < d" "d \<le> length s"
    unfolding regex_exec_def using exec_from_captures by blast
  then show ?thesis
    by (simp add: group_text_def)
qed

lemma comparison_match_found:
  "list_all two_groups patterns \<Longrightarrow> list_ex (\<lambda>p. regex_exec True p s \<noteq> None) patterns \<Longrightarrow>
     \<exists>g1 g2. comparison_match patterns s = Some (g1, g2)"
proof (induction patterns)
  case Nil
  then show ?case by simp
next
  case (Cons p ps)
  show ?case
  proof (cases "regex_exec True p s")
    case None
    with Cons show ?thesis by simp
  next
    case (Some res)
    obtain i j caps where res: "res = (i, j, caps)"
      by (cases res) auto
    from Cons.prems(1) have "two_groups p"
      by simp
    from regex_exec_groups [OF this Some [unfolded res]] Some res show ?thesis
      by auto
  qed
qed

lemma two_groupsI:
  "list_all group_free pre \<Longrightarrow> list_all group_free mid \<Longrightarrow>
     two_groups (seq (pre @ Group 1 (plus g1 (Atom a1)) # mid @ [Group 2 (plus g2 (Atom a2))]))"
  unfolding two_groups_def by blast

lemma comparisonPatterns_shape: "list_all two_groups comparisonPatterns"
proof -
  have words: "group_free (str w)" if "w \<in> {''compare'', ''and'', ''vs'', ''versus''}" for w
    using that by (auto simp: str_def)
  have gaps: "group_free spaces"
    by (simp add: spaces_def plus_def)
  have "two_groups (seq ([str ''compare'', spaces] @ Group 1 (plus False (Atom Dot)) #
      [spaces, Alt (str ''and'') (Alt (str ''vs'') (str ''versus'')), spaces]
      @ [Group 2 (plus True (Atom Dot))]))"
    by (rule two_groupsI) (simp_all add: words gaps)
  moreover have "two_groups (seq ([] @ Group 1 (plus False (Atom Dot)) # [spaces, str w, spaces]
      @ [Group 2 (plus True (Atom Dot))]))" if "w \<in> {''vs'', ''versus''}" for w
    using that by (intro two_groupsI) (auto simp: words gaps)
  ultimately show ?thesis
    by (simp add: comparisonPatterns_def)
qed

subsection \<open>The claims\<close>

text \<open>
  C1. The three utterances of the specification, as the program treats them. The first
  two give the stated intents. The third does not reach the fallback: the preposition
  pattern finds "at" inside "what" and captures "should I wear"; and had it not, the
  filler stripping would have left "what".
\<close>

theorem intent_examples:
  "getWeatherResponse_intent ''compare Tokyo and New York'' = Compare ''Tokyo'' ''New York'' \<and>
   getWeatherResponse_intent ''weather in Seattle'' = SingleCity ''Seattle'' \<and>
   getWeatherResponse_intent ''what should I wear tomorrow'' = SingleCity ''should I wear'' \<and>
   cleanedMessage ''what should I wear tomorrow'' = ''what''"
  by code_simp

text \<open>
  C2. The fallback city is put in before the final cleanup, not after it. On
  "weather in today" no comparison pattern matches, the preposition pattern captures
  "today", the cleanup removes it, and the location asked for is the empty string, which
  the weather endpoint refuses.
\<close>

theorem empty_location_sent:
  "comparison_match comparisonPatterns ''weather in today'' = None \<and>
   preposition_location ''weather in today'' = ''today'' \<and>
   final_cleanup ''today'' = [] \<and>
   getWeatherResponse_intent ''weather in today'' = SingleCity [] \<and>
   weather_endpoint (Parsed_request (Location_text [])) (Some ''key'') not_found mid_jitter =
     Error_response ''Location is required'' 400"
proof -
  have "comparison_match comparisonPatterns ''weather in today'' = None"
    by code_simp
  moreover have "preposition_location ''weather in today'' = ''today''"
    by code_simp
  moreover have "final_cleanup ''today'' = []"
    by code_simp
  ultimately have "getWeatherResponse_intent ''weather in today'' = SingleCity []"
    by (simp add: getWeatherResponse_intent_def single_city_def)
  moreover have "weather_endpoint (Parsed_request (Location_text [])) (Some ''key'') not_found mid_jitter =
      Error_response ''Location is required'' 400"
    by (simp add: weather_endpoint_def)
  ultimately show ?thesis
    using \<open>comparison_match comparisonPatterns ''weather in today'' = None\<close>
      \<open>preposition_location ''weather in today'' = ''today''\<close>
      \<open>final_cleanup ''today'' = []\<close>
    by simp
qed

text \<open>
  C3, as stated, fails for the second city: "compare" is removed from the first capture
  only.
\<close>

theorem second_city_keeps_compare:
  "comparison_match comparisonPatterns ''Tokyo vs compare Paris'' = Some (''Tokyo'', ''compare Paris'') \<and>
   getWeatherResponse_intent ''Tokyo vs compare Paris'' = Compare ''Tokyo'' ''compare Paris'' \<and>
   strip_listed [''compare'', ''weather in'', ''weather for'', ''weather'', ''the''] ''compare Paris''
     = ''Paris''"
  by code_simp

lemma remove_single_char:
  "remove_from False (Atom (Lit q)) before s = filter (\<lambda>c. c \<noteq> q) s"
  by (induction s arbitrary: before) auto

lemma trim_subset: "set (trim s) \<subseteq> set s"
  by (auto simp: trim_def dest!: set_dropWhileD)

lemma trim_idem: "trim (trim s) = trim s"
proof -
  define t where "t = dropWhile is_space s"
  define u where "u = dropWhile is_space (rev t)"
  have keep: "dropWhile is_space (rev u) = rev u"
  proof (cases "u = []")
    case True
    then show ?thesis by simp
  next
    case False
    have "rev t = takeWhile is_space (rev t) @ u"
      by (simp add: u_def)
    then have "t = rev u @ rev (takeWhile is_space (rev t))"
      by (metis rev_append rev_rev_ident)
    with False have "hd (rev u) = hd t"
      by (metis hd_append2 rev_is_Nil_conv)
    moreover have "t \<noteq> []"
      using False u_def by auto
    then have "\<not> is_space (hd t)"
      unfolding t_def by (rule hd_dropWhile)
    ultimately show ?thesis
      using False by (cases "rev u") auto
  qed
  have "trim s = rev u"
    by (simp add: trim_def t_def u_def)
  moreover have "dropWhile is_space u = u"
    by (simp add: u_def)
  ultimately show ?thesis
    using keep by (simp add: trim_def)
qed

lemma strip_listed_no_question: "CHR ''?'' \<notin> set (strip_listed phrases city)"
proof -
  have "CHR ''?'' \<notin> set (remove_all False (str ''?'') t)" for t
    by (simp add: remove_all_def str_def remove_single_char)
  then show ?thesis
    unfolding strip_listed_def using trim_subset by blast
qed


lemma comparison_match_truthy:
  "comparison_match patterns s = Some (g1, g2) \<Longrightarrow> g1 \<noteq> [] \<and> g2 \<noteq> []"
  by (induction patterns) (auto split: option.splits if_splits)

lemma comparison_match_first:
  "list_all two_groups patterns \<Longrightarrow> comparison_match patterns s = Some (g1, g2) \<Longrightarrow>
     \<exists>earlier p later i j caps. patterns = earlier @ p # later \<and>
       list_all (\<lambda>q. regex_exec True q s = None) earlier \<and>
       regex_exec True p s = Some (i, j, caps) \<and>
       group_text s caps 1 = Some g1 \<and> group_text s caps 2 = Some g2"
proof (induction patterns)
  case Nil
  then show ?case by simp
next
  case (Cons p ps)
  show ?case
  proof (cases "regex_exec True p s")
    case None
    with Cons.prems have "comparison_match ps s = Some (g1, g2)" "list_all two_groups ps"
      by simp_all
    from Cons.IH [OF this(2,1)]
    obtain earlier q later i j caps where "ps = earlier @ q # later"
        "list_all (\<lambda>q. regex_exec True q s = None) earlier"
        "regex_exec True q s = Some (i, j, caps)"
        "group_text s caps 1 = Some g1" "group_text s caps 2 = Some g2"
      by blast
    with None show ?thesis
      by (intro exI [of _ "p # earlier"] exI [of _ q] exI [of _ later] exI [of _ i]
          exI [of _ j] exI [of _ caps]) simp
  next
    case (Some res)
    obtain i j caps where res: "res = (i, j, caps)"
      by (cases res) auto
    from Cons.prems(1) have "two_groups p"
      by simp
    from regex_exec_groups [OF this Some [unfolded res]]
    obtain t1 t2 where t: "group_text s caps 1 = Some t1" "group_text s caps 2 = Some t2"
        "t1 \<noteq> []" "t2 \<noteq> []"
      by blast
    with Cons.prems(2) Some res have "t1 = g1" "t2 = g2"
      by simp_all
    with t Some res show ?thesis
      by (intro exI [of _ "[]"] exI [of _ p] exI [of _ ps] exI [of _ i] exI [of _ j]
          exI [of _ caps]) simp
  qed
qed

text \<open>
  C3, amended. When one of the three comparison patterns matches the utterance, the
  first of them that does has two captures, neither empty, and the intent is the
  comparison of the two captures cleaned: from the first, trimmed, the substrings
  "compare", "weather in", "weather for", "weather" and "the" are removed in this order,
  without regard to case, then every question mark, and the result is trimmed; the
  second is treated alike, except that "compare" is not removed from it. Neither name
  holds a question mark or has white space at its ends.
\<close>

theorem compare_cities_cleaned:
  "list_ex (\<lambda>p. regex_exec True p userMessage \<noteq> None) comparisonPatterns \<longrightarrow>
     (\<exists>earlier p later i j caps g1 g2.
        comparisonPatterns = earlier @ p # later \<and>
        list_all (\<lambda>q. regex_exec True q userMessage = None) earlier \<and>
        regex_exec True p userMessage = Some (i, j, caps) \<and>
        group_text userMessage caps 1 = Some g1 \<and> group_text userMessage caps 2 = Some g2 \<and>
        g1 \<noteq> [] \<and> g2 \<noteq> [] \<and>
        getWeatherResponse_intent userMessage =
          Compare
            (strip_listed [''compare'', ''weather in'', ''weather for'', ''weather'', ''the''] g1)
            (strip_listed [''weather in'', ''weather for'', ''weather'', ''the''] g2)) \<and>
     (\<forall>city1 city2. getWeatherResponse_intent userMessage = Compare city1 city2 \<longrightarrow>
        CHR ''?'' \<notin> set city1 \<and> CHR ''?'' \<notin> set city2 \<and>
        trim city1 = city1 \<and> trim city2 = city2)"
proof
  assume "list_ex (\<lambda>p. regex_exec True p userMessage \<noteq> None) comparisonPatterns"
  with comparisonPatterns_shape obtain g1 g2
    where m: "comparison_match comparisonPatterns userMessage = Some (g1, g2)"
    using comparison_match_found by blast
  then have intent: "getWeatherResponse_intent userMessage =
       Compare (strip_listed [''compare'', ''weather in'', ''weather for'', ''weather'', ''the''] g1)
               (strip_listed [''weather in'', ''weather for'', ''weather'', ''the''] g2)"
    by (simp add: getWeatherResponse_intent_def city1_of_def city2_of_def strip_listed_def)
  have tidy: "CHR ''?'' \<notin> set (strip_listed phrases g) \<and>
      trim (strip_listed phrases g) = strip_listed phrases g" for phrases g
    using strip_listed_no_question [of phrases g] by (simp add: strip_listed_def trim_idem)
  from comparison_match_first [OF comparisonPatterns_shape m]
  obtain earlier p later i j caps where "comparisonPatterns = earlier @ p # later"
      "list_all (\<lambda>q. regex_exec True q userMessage = None) earlier"
      "regex_exec True p userMessage = Some (i, j, caps)"
      "group_text userMessage caps 1 = Some g1" "group_text userMessage caps 2 = Some g2"
    by blast
  with intent comparison_match_truthy [OF m] have "\<exists>earlier p later i j caps g1 g2.
        comparisonPatterns = earlier @ p # later \<and>
        list_all (\<lambda>q. regex_exec True q userMessage = None) earlier \<and>
        regex_exec True p userMessage = Some (i, j, caps) \<and>
        group_text userMessage caps 1 = Some g1 \<and> group_text userMessage caps 2 = Some g2 \<and>
        g1 \<noteq> [] \<and> g2 \<noteq> [] \<and>
        getWeatherResponse_intent userMessage =
          Compare
            (strip_listed [''compare'', ''weather in'', ''weather for'', ''weather'', ''the''] g1)
            (strip_listed [''weather in'', ''weather for'', ''weather'', ''the''] g2)"
    by blast
  moreover from intent tidy
  have "\<forall>city1 city2. getWeatherResponse_intent userMessage = Compare city1 city2 \<longrightarrow>
        CHR ''?'' \<notin> set city1 \<and> CHR ''?'' \<notin> set city2 \<and>
        trim city1 = city1 \<and> trim city2 = city2"
    by simp
  ultimately show "(\<exists>earlier p later i j caps g1 g2.
        comparisonPatterns = earlier @ p # later \<and>
        list_all (\<lambda>q. regex_exec True q userMessage = None) earlier \<and>
        regex_exec True p userMessage = Some (i, j, caps) \<and>
        group_text userMessage caps 1 = Some g1 \<and> group_text userMessage caps 2 = Some g2 \<and>
        g1 \<noteq> [] \<and> g2 \<noteq> [] \<and>
        getWeatherResponse_intent userMessage =
          Compare
            (strip_listed [''compare'', ''weather in'', ''weather for'', ''weather'', ''the''] g1)
            (strip_listed [''weather in'', ''weather for'', ''weather'', ''the''] g2)) \<and>
     (\<forall>city1 city2. getWeatherResponse_intent userMessage = Compare city1 city2 \<longrightarrow>
        CHR ''?'' \<notin> set city1 \<and> CHR ''?'' \<notin> set city2 \<and>
        trim city1 = city1 \<and> trim city2 = city2)"
    by blast
qed

theorem compare_cities_cleaned_witness:
  "list_ex (\<lambda>p. regex_exec True p ''Compare the weather in Oslo versus Rome?'' \<noteq> None)
     comparisonPatterns \<and>
   getWeatherResponse_intent ''Compare the weather in Oslo versus Rome?'' = Compare ''Oslo'' ''Rome'' \<and>
   CHR ''?'' \<notin> set ''Rome'' \<and> trim ''Oslo'' = ''Oslo''"
proof -
  have hyp: "list_ex (\<lambda>p. regex_exec True p ''Compare the weather in Oslo versus Rome?'' \<noteq> None)
     comparisonPatterns"
    by code_simp
  have intent: "getWeatherResponse_intent ''Compare the weather in Oslo versus Rome?'' =
      Compare ''Oslo'' ''Rome''"
    by code_simp
  from compare_cities_cleaned [of "''Compare the weather in Oslo versus Rome?''"] hyp intent
  show ?thesis
    by simp
qed
end
